(* ===== verification/Prelude.thy ===== *)
theory Prelude
  imports Complex_Main
begin

text \<open>
  Shared vocabulary of the species-prioritisation development: the Python exceptions the
  scoring code can raise (as values of a sum type), the bind operation that threads them
  through a computation the way a raised exception aborts the rest of a function, the
  sequencing of element-wise results (a pandas operation over a column raises when one
  element raises), and the facts on half-integers that the score bounds use.
\<close>

section \<open>Collections\<close>

named_theorems score_simps "characteristic equations of the scoring tables and sub-scores"
named_theorems frame_simps "characteristic equations of the DataFrame model"

section \<open>Python exceptions as values\<close>

text \<open>
  \<open>KeyError c\<close> is raised by \<open>df[c]\<close> when the frame has no column \<open>c\<close>;
  \<open>TypeError\<close> by an arithmetic operator or comparison applied to a string and a number.
\<close>

datatype py_error = KeyError string | TypeError

type_synonym 'a result = "py_error + 'a"

definition bind_res :: "'a result \<Rightarrow> ('a \<Rightarrow> 'b result) \<Rightarrow> 'b result" where
  "bind_res r f = (case r of Inl e \<Rightarrow> Inl e | Inr x \<Rightarrow> f x)"

lemma bind_res_Inl [simp]: "bind_res (Inl e) f = Inl e"
  by (simp add: bind_res_def)

lemma bind_res_Inr [simp]: "bind_res (Inr x) f = f x"
  by (simp add: bind_res_def)

lemma bind_res_eq_Inr:
  "bind_res r f = Inr y \<longleftrightarrow> (\<exists>x. r = Inr x \<and> f x = Inr y)"
  by (cases r) simp_all

lemma bind_res_eq_Inl:
  "bind_res r f = Inl e \<longleftrightarrow> r = Inl e \<or> (\<exists>x. r = Inr x \<and> f x = Inl e)"
  by (cases r) simp_all

section \<open>Element-wise results\<close>

text \<open>
  A vectorised pandas operation applies a Python operation to every element and raises
  the first exception an element raises; \<open>seq_res\<close> collects the element results.
\<close>

fun seq_res :: "'a result list \<Rightarrow> 'a list result" where
  "seq_res [] = Inr []"
| "seq_res (r # rs) = bind_res r (\<lambda>x. bind_res (seq_res rs) (\<lambda>xs. Inr (x # xs)))"

lemma seq_res_map_Inr [simp]: "seq_res (map (\<lambda>x. Inr (f x)) xs) = Inr (map f xs)"
  by (induction xs) simp_all

lemma seq_res_Inr_length: "seq_res rs = Inr xs \<Longrightarrow> length xs = length rs"
  by (induction rs arbitrary: xs) (auto simp: bind_res_eq_Inr)

lemma seq_res_Inr_nth:
  "seq_res rs = Inr xs \<Longrightarrow> i < length rs \<Longrightarrow> rs ! i = Inr (xs ! i)"
proof (induction rs arbitrary: xs i)
  case Nil
  then show ?case by simp
next
  case (Cons r rs)
  then obtain x xs' where "r = Inr x" "seq_res rs = Inr xs'" "xs = x # xs'"
    by (auto simp: bind_res_eq_Inr)
  with Cons show ?case by (cases i) auto
qed

lemma seq_res_Inl: "Inl e \<in> set rs \<Longrightarrow> \<exists>e'. seq_res rs = Inl e'"
proof (induction rs)
  case Nil
  then show ?case by simp
next
  case (Cons r rs)
  show ?case
  proof (cases r)
    case (Inl a)
    then show ?thesis by simp
  next
    case (Inr x)
    with Cons have "\<exists>e'. seq_res rs = Inl e'" by simp
    with Inr show ?thesis by auto
  qed
qed

lemma bind_res_assoc: "bind_res (bind_res m f) g = bind_res m (\<lambda>x. bind_res (f x) g)"
  by (cases m) simp_all

lemma seq_res_Inl_mem: "seq_res rs = Inl e \<Longrightarrow> Inl e \<in> set rs"
  by (induction rs) (auto simp: bind_res_eq_Inl)

text \<open>A result that is either a value or a \<open>TypeError\<close>: the only exception the
  arithmetic of a frame whose columns are all present can raise.\<close>

definition only_type_error :: "'a result \<Rightarrow> bool" where
  "only_type_error r \<longleftrightarrow> (\<forall>e. r = Inl e \<longrightarrow> e = TypeError)"

lemma only_type_error_simps [simp]:
  "only_type_error (Inr x)"
  "only_type_error (Inl e) \<longleftrightarrow> e = TypeError"
  by (simp_all add: only_type_error_def)

lemma only_type_error_bind [simp, intro]:
  "only_type_error m \<Longrightarrow> (\<And>x. only_type_error (f x)) \<Longrightarrow> only_type_error (bind_res m f)"
  by (cases m) simp_all

lemma only_type_error_seq_res:
  "\<forall>r \<in> set rs. only_type_error r \<Longrightarrow> only_type_error (seq_res rs)"
  by (auto simp: only_type_error_def dest: seq_res_Inl_mem)

lemma seq_res_Inl_TypeError:
  "Inl e \<in> set rs \<Longrightarrow> \<forall>r\<in>set rs. only_type_error r \<Longrightarrow> seq_res rs = Inl TypeError"
  using seq_res_Inl [of e rs] only_type_error_seq_res [of rs] by (auto simp: only_type_error_def)

lemma seq_res_all_Inr:
  "\<forall>x\<in>set xs. \<exists>v. f x = Inr v \<and> P v \<Longrightarrow>
   \<exists>vs. seq_res (map f xs) = Inr vs \<and> (\<forall>v\<in>set vs. P v)"
proof (induction xs)
  case Nil
  then show ?case by simp
next
  case (Cons x xs)
  then obtain v vs where "f x = Inr v" "P v" "seq_res (map f xs) = Inr vs" "\<forall>v\<in>set vs. P v"
    by auto
  then show ?case by auto
qed

section \<open>Half-integers\<close>

text \<open>
  Every score of the program is an integer or an integer plus one half (weights 1.5);
  such values are exact in binary floating point, which is why the model may compute with
  \<^typ>\<open>real\<close>. \<open>half_int x\<close> says that \<open>x\<close> is a whole multiple of \<open>1/2\<close>.
\<close>

definition half_int :: "real \<Rightarrow> bool" where
  "half_int x \<longleftrightarrow> 2 * x \<in> \<int>"

lemma half_int_of_int [intro, simp]: "half_int (of_int k)"
  by (simp add: half_int_def)

lemma half_int_add [intro]: "half_int x \<Longrightarrow> half_int y \<Longrightarrow> half_int (x + y)"
  unfolding half_int_def by (simp add: distrib_left)

lemma half_int_mult_int [intro, simp]: "half_int (of_int k * of_int m)"
  by (metis half_int_of_int of_int_mult)

lemma half_int_mult_numeral [intro, simp]: "half_int (of_int k * numeral n)"
  by (metis half_int_mult_int of_int_numeral)

lemma half_int_mult_three_halves [intro, simp]: "half_int (of_int k * 3 / 2)"
proof -
  have "2 * (of_int k * 3 / 2 :: real) = of_int (3 * k)" by simp
  then show ?thesis unfolding half_int_def by (metis Ints_of_int)
qed

end
