(* ===== verification/Priority.thy ===== *)
theory Priority
  imports Prelude
begin

text \<open>
  The priority bucketing of \<open>score_species\<close> (src/species_prioritization_app.py,
  lines 65--70): a cascade of threshold tests on the total score, first match wins.
  The four labels form a datatype ordered from \<open>Low\<close> to \<open>Critical\<close> (a
  linorder instance through their rank), so that monotonicity of the bucketing
  can be stated with the library's order.
\<close>

section \<open>Labels\<close>

text \<open>The constructors in the order the cascade tests them.\<close>

datatype priority = Critical | High | Medium | Low

primrec priority_rank :: "priority \<Rightarrow> nat" where
  "priority_rank Critical = 3"
| "priority_rank High = 2"
| "priority_rank Medium = 1"
| "priority_rank Low = 0"

lemma priority_rank_inj: "priority_rank p = priority_rank q \<longleftrightarrow> p = q"
  by (cases p; cases q) simp_all

instantiation priority :: linorder
begin

definition less_eq_priority :: "priority \<Rightarrow> priority \<Rightarrow> bool" where
  "p \<le> q \<longleftrightarrow> priority_rank p \<le> priority_rank q"

definition less_priority :: "priority \<Rightarrow> priority \<Rightarrow> bool" where
  "p < q \<longleftrightarrow> priority_rank p < priority_rank q"

instance
proof
  fix p q r :: priority
  show "p < q \<longleftrightarrow> p \<le> q \<and> \<not> q \<le> p"
    by (auto simp: less_eq_priority_def less_priority_def)
  show "p \<le> p" by (simp add: less_eq_priority_def)
  show "p \<le> q \<Longrightarrow> q \<le> r \<Longrightarrow> p \<le> r" by (simp add: less_eq_priority_def)
  show "p \<le> q \<Longrightarrow> q \<le> p \<Longrightarrow> p = q"
    by (simp add: less_eq_priority_def flip: priority_rank_inj)
  show "p \<le> q \<or> q \<le> p" by (auto simp: less_eq_priority_def)
qed

end

text \<open>The strings the program writes into the \<open>Priority\<close> column.\<close>

primrec priority_name :: "priority \<Rightarrow> string" where
  "priority_name Critical = ''Critical''"
| "priority_name High = ''High''"
| "priority_name Medium = ''Medium''"
| "priority_name Low = ''Low''"

section \<open>The cascade\<close>

text \<open>
  \<^verbatim>\<open>lambda x: "Critical" if x >= 39 else "High" if x >= 32 else
           "Medium" if x >= 24 else "Low"\<close>
  on a numeric total (the NaN case is handled on cells, in theory \<open>Frame\<close>).
\<close>

definition priority_of :: "real \<Rightarrow> priority" where
  "priority_of x =
     (if x \<ge> 39 then Critical
      else if x \<ge> 32 then High
      else if x \<ge> 24 then Medium
      else Low)"

text \<open>The band of totals each label stands for, as the spec's table gives it.\<close>

primrec priority_band :: "priority \<Rightarrow> real set" where
  "priority_band Critical = {39..}"
| "priority_band High = {32..<39}"
| "priority_band Medium = {24..<32}"
| "priority_band Low = {..<24}"

section \<open>Properties of the cascade\<close>

text \<open>
  C1. The cascade and the spec's table of bands agree: the label the first-match cascade
  gives a total is exactly the label whose band contains it. So the bands partition the
  reals, and no boundary is ambiguous.
\<close>

theorem priority_of_band: "priority_of x = p \<longleftrightarrow> x \<in> priority_band p"
  by (cases p) (auto simp: priority_of_def)

text \<open>
  C4. The bucketing is monotone: a higher total never gets a lower label.
\<close>

theorem priority_of_mono: "x \<le> y \<Longrightarrow> priority_of x \<le> priority_of y"
  by (simp add: less_eq_priority_def priority_of_def)

theorem priority_of_mono_witness:
  "(31 :: real) \<le> 32 \<and> priority_of 31 \<le> priority_of 32"
  using priority_of_mono [of 31 32] by simp

end
