(* ===== verification/Scoring.thy ===== *)
theory Scoring
  imports Priority
begin

text \<open>
  The scoring rules of \<open>score_species\<close> (src/species_prioritization_app.py, lines
  15--72) read one row at a time: a species record with the eight input columns, the seven
  sub-scores, the total and the priority label. Each categorical column is looked up in a
  dictionary literal of the source (\<open>Series.map\<close>), a value not in the dictionary
  becomes \<open>NaN\<close> and then 0 (\<open>fillna(0)\<close>), and the code is multiplied by the
  column's weight. This is the per-record specification that the column-wise DataFrame
  model of theory \<open>Score_Frame\<close> is proved to implement.
\<close>

section \<open>Records\<close>

text \<open>The input row: the columns of the sample CSV and of the single-entry form.\<close>

record species_record =
  species_name :: string
  iucn_status :: string
  endemism :: string
  threat_level :: int
  altitudinal_range :: string
  exploitation :: string
  habitat_specificity :: int
  use_value :: int

text \<open>The output row: the input columns followed by the nine columns the code adds.\<close>

record scored_species = species_record +
  iucn_score :: real
  endemism_score :: real
  threat_score :: real
  altitude_score :: real
  exploitation_score :: real
  habitat_score :: real
  use_score :: real
  total_score :: real
  priority :: priority

section \<open>Dictionaries and lambdas of the source\<close>

definition iucn_map :: "(string \<times> int) list" where
  "iucn_map =
     [(''Critically Endangered'', 5), (''Endangered'', 4), (''Vulnerable'', 3),
      (''Near Threatened'', 2), (''Least Concern'', 1)]"

definition endemism_map :: "(string \<times> int) list" where
  "endemism_map = [(''Yes'', 2), (''No'', 1)]"

definition altitude_map :: "(string \<times> int) list" where
  "altitude_map = [(''<500'', 4), (''501-1000'', 3), (''1001-1500'', 2), (''>1500'', 1)]"

definition exploitation_map :: "(string \<times> int) list" where
  "exploitation_map = [(''Not exploited'', 1), (''Local use'', 2), (''Commercial use'', 3)]"

text \<open>\<open>s.map(d).fillna(0)\<close> on one value: the dictionary's code, or 0 when absent.\<close>

definition dict_code :: "(string \<times> int) list \<Rightarrow> string \<Rightarrow> int" where
  "dict_code d s = (case map_of d s of Some v \<Rightarrow> v | None \<Rightarrow> 0)"

text \<open>\<open>lambda x: 4 if x == 1 else 3 if x == 2 else 2 if x == 3 else 1\<close>\<close>

definition habitat_code :: "int \<Rightarrow> int" where
  "habitat_code x = (if x = 1 then 4 else if x = 2 then 3 else if x = 3 then 2 else 1)"

text \<open>\<open>lambda x: 1 if x == 0 else 2 if x == 1 else 3 if x == 2 else 4 if x == 3 else 5\<close>\<close>

definition use_code :: "int \<Rightarrow> int" where
  "use_code x =
     (if x = 0 then 1 else if x = 1 then 2 else if x = 2 then 3 else if x = 3 then 4 else 5)"

section \<open>Sub-scores, total and priority\<close>

definition iucn_score_of :: "string \<Rightarrow> real" where
  "iucn_score_of s = of_int (dict_code iucn_map s) * 3"

definition endemism_score_of :: "string \<Rightarrow> real" where
  "endemism_score_of s = of_int (dict_code endemism_map s) * 2"

definition threat_score_of :: "int \<Rightarrow> real" where
  "threat_score_of t = of_int t * 3"

definition altitude_score_of :: "string \<Rightarrow> real" where
  "altitude_score_of s = of_int (dict_code altitude_map s) * 1"

definition exploitation_score_of :: "string \<Rightarrow> real" where
  "exploitation_score_of s = of_int (dict_code exploitation_map s) * 2"

definition habitat_score_of :: "int \<Rightarrow> real" where
  "habitat_score_of x = of_int (habitat_code x) * (3 / 2)"

definition use_score_of :: "int \<Rightarrow> real" where
  "use_score_of x = of_int (use_code x) * (3 / 2)"

text \<open>
  One row of \<open>score_species\<close>: the seven sub-scores, their sum in the source's order
  (\<open>IUCN + Endemism + Threat + Altitude + Exploitation + Habitat + Use\<close>), and the
  label of the total.
\<close>

definition score_row :: "species_record \<Rightarrow> scored_species" where
  "score_row r =
     (let i = iucn_score_of (iucn_status r);
          e = endemism_score_of (endemism r);
          t = threat_score_of (threat_level r);
          a = altitude_score_of (altitudinal_range r);
          x = exploitation_score_of (exploitation r);
          h = habitat_score_of (habitat_specificity r);
          u = use_score_of (use_value r);
          tot = i + e + t + a + x + h + u
      in \<lparr>species_name = species_name r, iucn_status = iucn_status r,
          endemism = endemism r, threat_level = threat_level r,
          altitudinal_range = altitudinal_range r, exploitation = exploitation r,
          habitat_specificity = habitat_specificity r, use_value = use_value r,
          iucn_score = i, endemism_score = e, threat_score = t, altitude_score = a,
          exploitation_score = x, habitat_score = h, use_score = u,
          total_score = tot, priority = priority_of tot\<rparr>)"

text \<open>The batch: \<open>score_species\<close> read row by row.\<close>

definition score_records :: "species_record list \<Rightarrow> scored_species list" where
  "score_records rs = map score_row rs"

section \<open>Specification predicates\<close>

text \<open>
  \<open>r'\<close> is at least as threatened as \<open>r\<close> on every criterion: codes of the
  categorical columns at least as high, threat level at least as high, at most as many
  habitats (counting from 1), at least as many uses (counting from 0).
\<close>

definition at_least_as_threatened :: "species_record \<Rightarrow> species_record \<Rightarrow> bool" where
  "at_least_as_threatened r r' \<longleftrightarrow>
     dict_code iucn_map (iucn_status r) \<le> dict_code iucn_map (iucn_status r') \<and>
     dict_code endemism_map (endemism r) \<le> dict_code endemism_map (endemism r') \<and>
     threat_level r \<le> threat_level r' \<and>
     dict_code altitude_map (altitudinal_range r) \<le> dict_code altitude_map (altitudinal_range r') \<and>
     dict_code exploitation_map (exploitation r) \<le> dict_code exploitation_map (exploitation r') \<and>
     1 \<le> habitat_specificity r' \<and> habitat_specificity r' \<le> habitat_specificity r \<and>
     0 \<le> use_value r \<and> use_value r \<le> use_value r'"

text \<open>
  The range of threat levels on which \<^const>\<open>score_row\<close> is the program's computation
  exactly. pandas multiplies an integer \<open>Threat_Level\<close> column by 3 in int64 (line 32),
  which wraps past \<open>3074457345618258602\<close> (theory \<open>Threat_Int64\<close>), and sums the
  sub-scores in float64 (lines 55--63), which is exact for multiples of one half below
  \<open>2^52\<close> in magnitude. For \<open>|t| \<le> 10^15\<close> neither limit is reached: the product
  does not wrap and every partial sum, at most \<open>3 * 10^15 + 42.5\<close> in magnitude, is a
  float64 value. Beyond it the program's total differs from the exact one.
\<close>

definition threat_exact :: "species_record \<Rightarrow> bool" where
  "threat_exact r \<longleftrightarrow> \<bar>threat_level r\<bar> \<le> 10 ^ 15"

section \<open>Characteristic equations\<close>

text \<open>The equations that evaluate a row on concrete values, as one collection.\<close>

lemmas score_eval [score_simps] = dict_code_def iucn_map_def endemism_map_def altitude_map_def
  exploitation_map_def habitat_code_def use_code_def iucn_score_of_def endemism_score_of_def
  threat_score_of_def altitude_score_of_def exploitation_score_of_def habitat_score_of_def
  use_score_of_def priority_of_def

lemma score_row_sel [simp]:
  "species_name (score_row r) = species_name r"
  "iucn_status (score_row r) = iucn_status r"
  "endemism (score_row r) = endemism r"
  "threat_level (score_row r) = threat_level r"
  "altitudinal_range (score_row r) = altitudinal_range r"
  "exploitation (score_row r) = exploitation r"
  "habitat_specificity (score_row r) = habitat_specificity r"
  "use_value (score_row r) = use_value r"
  "iucn_score (score_row r) = iucn_score_of (iucn_status r)"
  "endemism_score (score_row r) = endemism_score_of (endemism r)"
  "threat_score (score_row r) = threat_score_of (threat_level r)"
  "altitude_score (score_row r) = altitude_score_of (altitudinal_range r)"
  "exploitation_score (score_row r) = exploitation_score_of (exploitation r)"
  "habitat_score (score_row r) = habitat_score_of (habitat_specificity r)"
  "use_score (score_row r) = use_score_of (use_value r)"
  by (simp_all add: score_row_def Let_def)

lemma total_score_row:
  "total_score (score_row r) =
     iucn_score_of (iucn_status r) + endemism_score_of (endemism r)
     + threat_score_of (threat_level r) + altitude_score_of (altitudinal_range r)
     + exploitation_score_of (exploitation r) + habitat_score_of (habitat_specificity r)
     + use_score_of (use_value r)"
  by (simp add: score_row_def Let_def)

lemma priority_score_row [simp]:
  "priority (score_row r) = priority_of (total_score (score_row r))"
  by (simp add: score_row_def Let_def)

section \<open>Lookups and ranges\<close>

lemma dict_code_range: "dict_code d s \<in> insert 0 (snd ` set d)"
  by (cases "map_of d s") (force simp: dict_code_def dest: map_of_SomeD)+

lemma dict_score_ranges:
  "iucn_score_of s \<in> {0, 3, 6, 9, 12, 15}"
  "endemism_score_of s \<in> {0, 2, 4}"
  "altitude_score_of s \<in> {0, 1, 2, 3, 4}"
  "exploitation_score_of s \<in> {0, 2, 4, 6}"
  using dict_code_range [of iucn_map s] dict_code_range [of endemism_map s]
    dict_code_range [of altitude_map s] dict_code_range [of exploitation_map s]
  by (auto simp: iucn_score_of_def iucn_map_def endemism_score_of_def endemism_map_def
      altitude_score_of_def altitude_map_def exploitation_score_of_def exploitation_map_def)

lemma count_score_ranges:
  "habitat_score_of x \<in> {3/2, 3, 9/2, 6}"
  "use_score_of x \<in> {3/2, 3, 9/2, 6, 15/2}"
  by (simp_all add: habitat_score_of_def habitat_code_def use_score_of_def use_code_def)

lemma dict_score_intervals:
  "0 \<le> iucn_score_of s \<and> iucn_score_of s \<le> 15"
  "0 \<le> endemism_score_of s \<and> endemism_score_of s \<le> 4"
  "0 \<le> altitude_score_of s \<and> altitude_score_of s \<le> 4"
  "0 \<le> exploitation_score_of s \<and> exploitation_score_of s \<le> 6"
  subgoal using dict_score_ranges(1) [of s] by auto
  subgoal using dict_score_ranges(2) [of s] by auto
  subgoal using dict_score_ranges(3) [of s] by auto
  subgoal using dict_score_ranges(4) [of s] by auto
  done

lemma count_score_intervals:
  "3/2 \<le> habitat_score_of x \<and> habitat_score_of x \<le> 6"
  "3/2 \<le> use_score_of x \<and> use_score_of x \<le> 15/2"
  subgoal using count_score_ranges(1) [of x] by auto
  subgoal using count_score_ranges(2) [of x] by auto
  done

lemma sub_scores_half_int:
  "half_int (iucn_score_of s)" "half_int (endemism_score_of s)" "half_int (threat_score_of t)"
  "half_int (altitude_score_of s)" "half_int (exploitation_score_of s)"
  "half_int (habitat_score_of t)" "half_int (use_score_of t)"
  unfolding iucn_score_of_def endemism_score_of_def threat_score_of_def altitude_score_of_def
    exploitation_score_of_def habitat_score_of_def use_score_of_def
  by simp_all

section \<open>Properties of one row\<close>

text \<open>
  C2. Unknown-category fallback: a categorical sub-score is 0 exactly when the column's
  value is not one of the keys of the source's dictionary (\<open>map\<close> gives NaN,
  \<open>fillna(0)\<close> gives 0); every known value scores above 0.
\<close>

theorem unknown_category_fallback:
  "(iucn_score (score_row r) = 0 \<longleftrightarrow> iucn_status r \<notin>
     {''Critically Endangered'', ''Endangered'', ''Vulnerable'', ''Near Threatened'', ''Least Concern''})
   \<and> (endemism_score (score_row r) = 0 \<longleftrightarrow> endemism r \<notin> {''Yes'', ''No''})
   \<and> (altitude_score (score_row r) = 0 \<longleftrightarrow>
     altitudinal_range r \<notin> {''<500'', ''501-1000'', ''1001-1500'', ''>1500''})
   \<and> (exploitation_score (score_row r) = 0 \<longleftrightarrow>
     exploitation r \<notin> {''Not exploited'', ''Local use'', ''Commercial use''})"
  by (simp add: iucn_score_of_def endemism_score_of_def altitude_score_of_def
      exploitation_score_of_def dict_code_def iucn_map_def endemism_map_def altitude_map_def
      exploitation_map_def)

text \<open>
  C3. Monotonicity: within the exact range of threat levels (\<^const>\<open>threat_exact\<close>), a
  species at least as threatened as another on every criterion gets at least its total
  and at least its priority. Beyond the range the program is not monotone (theory
  \<open>Threat_Int64\<close>, C19).
\<close>

theorem score_row_monotone:
  assumes "at_least_as_threatened r r'" and "threat_exact r" and "threat_exact r'"
  shows "total_score (score_row r) \<le> total_score (score_row r') \<and>
         priority (score_row r) \<le> priority (score_row r')"
proof -
  from assms(1) have "habitat_code (habitat_specificity r) \<le> habitat_code (habitat_specificity r')"
    and "use_code (use_value r) \<le> use_code (use_value r')"
    by (auto simp: at_least_as_threatened_def habitat_code_def use_code_def)
  with assms(1) have le: "total_score (score_row r) \<le> total_score (score_row r')"
    by (simp add: at_least_as_threatened_def total_score_row iucn_score_of_def
        endemism_score_of_def threat_score_of_def altitude_score_of_def
        exploitation_score_of_def habitat_score_of_def use_score_of_def)
  then show ?thesis by (simp add: less_eq_priority_def priority_of_def)
qed

theorem score_row_monotone_witness:
  "threat_exact
     \<lparr>species_name = ''B'', iucn_status = ''Vulnerable'', endemism = ''No'', threat_level = 2,
      altitudinal_range = ''>1500'', exploitation = ''Local use'', habitat_specificity = 4,
      use_value = 1\<rparr> \<and>
   threat_exact
     \<lparr>species_name = ''A'', iucn_status = ''Endangered'', endemism = ''Yes'', threat_level = 3,
      altitudinal_range = ''501-1000'', exploitation = ''Local use'', habitat_specificity = 2,
      use_value = 2\<rparr> \<and>
   at_least_as_threatened
     \<lparr>species_name = ''B'', iucn_status = ''Vulnerable'', endemism = ''No'', threat_level = 2,
      altitudinal_range = ''>1500'', exploitation = ''Local use'', habitat_specificity = 4,
      use_value = 1\<rparr>
     \<lparr>species_name = ''A'', iucn_status = ''Endangered'', endemism = ''Yes'', threat_level = 3,
      altitudinal_range = ''501-1000'', exploitation = ''Local use'', habitat_specificity = 2,
      use_value = 2\<rparr> \<and>
   total_score (score_row
     \<lparr>species_name = ''B'', iucn_status = ''Vulnerable'', endemism = ''No'', threat_level = 2,
      altitudinal_range = ''>1500'', exploitation = ''Local use'', habitat_specificity = 4,
      use_value = 1\<rparr>) \<le>
   total_score (score_row
     \<lparr>species_name = ''A'', iucn_status = ''Endangered'', endemism = ''Yes'', threat_level = 3,
      altitudinal_range = ''501-1000'', exploitation = ''Local use'', habitat_specificity = 2,
      use_value = 2\<rparr>) \<and>
   priority (score_row
     \<lparr>species_name = ''B'', iucn_status = ''Vulnerable'', endemism = ''No'', threat_level = 2,
      altitudinal_range = ''>1500'', exploitation = ''Local use'', habitat_specificity = 4,
      use_value = 1\<rparr>) \<le>
   priority (score_row
     \<lparr>species_name = ''A'', iucn_status = ''Endangered'', endemism = ''Yes'', threat_level = 3,
      altitudinal_range = ''501-1000'', exploitation = ''Local use'', habitat_specificity = 2,
      use_value = 2\<rparr>)"
  (is "?e1 \<and> ?e2 \<and> ?h \<and> _")
proof -
  have e1: ?e1 and e2: ?e2 by (simp_all add: threat_exact_def)
  have h: ?h
    by (simp add: at_least_as_threatened_def dict_code_def
        iucn_map_def endemism_map_def altitude_map_def exploitation_map_def)
  show ?thesis using e1 e2 h score_row_monotone [OF h e1 e2] by blast
qed

text \<open>
  C5. The numeric lambdas fall back to their last branch: the habitat score is
  \<open>1 * 1.5\<close> exactly when the habitat count is not 1, 2 or 3 (so also for 0 and
  negative counts), the use score is \<open>5 * 1.5\<close> exactly when the use count is not
  0, 1, 2 or 3 (so also for negative counts).
\<close>

theorem numeric_fallback_buckets:
  "(habitat_score (score_row r) = 3/2 \<longleftrightarrow> habitat_specificity r \<notin> {1, 2, 3}) \<and>
   (use_score (score_row r) = 15/2 \<longleftrightarrow> use_value r \<notin> {0, 1, 2, 3})"
  by (simp add: habitat_score_of_def habitat_code_def use_score_of_def use_code_def)

text \<open>
  C6. Bounds of the total: within the exact range of threat levels, whatever the
  categorical values and counts, the total lies between \<open>3 t + 3\<close> and
  \<open>3 t + 42.5\<close> for threat level \<open>t\<close>; the threat level is the only contribution
  that is not bounded by the dictionaries and lambdas.
\<close>

theorem total_score_bounds:
  assumes "threat_exact r"
  shows "3 * of_int (threat_level r) + 3 \<le> total_score (score_row r) \<and>
         total_score (score_row r) \<le> 3 * of_int (threat_level r) + 85/2"
  using dict_score_intervals [of "iucn_status r"] dict_score_intervals [of "endemism r"]
    dict_score_intervals [of "altitudinal_range r"] dict_score_intervals [of "exploitation r"]
    count_score_intervals [of "habitat_specificity r"] count_score_intervals [of "use_value r"]
  unfolding total_score_row threat_score_of_def by linarith

theorem total_score_bounds_witness:
  "3 * of_int 5 + 3 \<le> total_score (score_row \<lparr>species_name = ''X'', iucn_status = ''Unknown'',
      endemism = ''No'', threat_level = 5, altitudinal_range = ''>1500'', exploitation = ''none'',
      habitat_specificity = 7, use_value = 0\<rparr>) \<and>
   total_score (score_row \<lparr>species_name = ''X'', iucn_status = ''Unknown'',
      endemism = ''No'', threat_level = 5, altitudinal_range = ''>1500'', exploitation = ''none'',
      habitat_specificity = 7, use_value = 0\<rparr>) \<le> 3 * of_int 5 + 85/2"
  using total_score_bounds [of "\<lparr>species_name = ''X'', iucn_status = ''Unknown'',
      endemism = ''No'', threat_level = 5, altitudinal_range = ''>1500'', exploitation = ''none'',
      habitat_specificity = 7, use_value = 0\<rparr>"]
  by (simp add: threat_exact_def)

text \<open>
  Every total is a whole multiple of one half. With the bound of
  \<^const>\<open>threat_exact\<close> this is what makes the float64 sum of lines 55--63 exact, and
  the threshold tests of the cascade decided on the exact value.
\<close>

lemma total_score_half_int: "half_int (total_score (score_row r))"
  unfolding total_score_row by (intro half_int_add sub_scores_half_int)

end
