(* ===== verification/Frame.thy ===== *)
theory Frame
  imports Prelude
begin

text \<open>
  The part of pandas that \<open>score_species\<close> and the Streamlit tabs use, as the program
  sees it: a DataFrame is a list of named columns in column order, a column (Series) is a
  list of cells, and a cell is a number, a string or NaN (a missing CSV field). Each
  operation is the element-wise Python operation the vectorised pandas call applies, with
  the exception that Python raises written as a value of \<^typ>\<open>'a result\<close>: \<open>df[c]\<close>
  raises \<open>KeyError\<close> for a missing column, arithmetic and comparison between a string
  and a number raise \<open>TypeError\<close>. Python's \<open>int\<close> and \<open>float\<close> cells are both
  \<open>Num\<close>: the scoring code never distinguishes them (\<open>1 == 1.0\<close>), and all values it
  computes are exact binary fractions. The lemmas cover lookup
  after update, column selection, lengths, the fusion of column sums into row-wise sums,
  and the arithmetic on columns without strings, which never raises.
\<close>

section \<open>Cells, Series and DataFrames\<close>

datatype cell = Num real | Str string | NaN

type_synonym series = "cell list"

type_synonym frame = "(string \<times> series) list"

text \<open>\<open>df[c]\<close>: the first column named \<open>c\<close>, or \<open>KeyError c\<close>.\<close>

definition get_col :: "frame \<Rightarrow> string \<Rightarrow> series result" where
  "get_col df c = (case map_of df c of Some s \<Rightarrow> Inr s | None \<Rightarrow> Inl (KeyError c))"

text \<open>\<open>df[c] = s\<close>: an existing column is replaced in place, a new one is appended.\<close>

fun set_col :: "frame \<Rightarrow> string \<Rightarrow> series \<Rightarrow> frame" where
  "set_col [] c s = [(c, s)]"
| "set_col ((c', s') # df) c s = (if c' = c then (c, s) # df else (c', s') # set_col df c s)"

text \<open>\<open>df[[c1, ..., cn]]\<close>: the named columns in the given order; the first missing name
  raises \<open>KeyError\<close>.\<close>

definition select_cols :: "frame \<Rightarrow> string list \<Rightarrow> frame result" where
  "select_cols df cs = bind_res (seq_res (map (get_col df) cs)) (\<lambda>ss. Inr (zip cs ss))"

text \<open>
  A well-formed frame of \<open>n\<close> rows: distinct column names (\<open>read_csv\<close> renames
  duplicates) and every column of length \<open>n\<close> (one shared index).
\<close>

definition wf_frame :: "nat \<Rightarrow> frame \<Rightarrow> bool" where
  "wf_frame n df \<longleftrightarrow> distinct (map fst df) \<and> list_all (\<lambda>(c, s). length s = n) df"

section \<open>Element-wise Python operations\<close>

text \<open>One element of \<open>s.map(d)\<close> for a dictionary \<open>d\<close> with string keys.\<close>

fun dict_lookup_cell :: "(string \<times> int) list \<Rightarrow> cell \<Rightarrow> cell" where
  "dict_lookup_cell d (Str k) = (case map_of d k of Some v \<Rightarrow> Num (of_int v) | None \<Rightarrow> NaN)"
| "dict_lookup_cell d (Num x) = NaN"
| "dict_lookup_cell d NaN = NaN"

text \<open>One element of \<open>s.fillna(v)\<close>.\<close>

fun fillna_cell :: "real \<Rightarrow> cell \<Rightarrow> cell" where
  "fillna_cell v NaN = Num v"
| "fillna_cell v (Num x) = Num x"
| "fillna_cell v (Str k) = Str k"

text \<open>\<open>x * k\<close> for a Python \<open>int\<close> \<open>k\<close>: a string is repeated \<open>k\<close> times.\<close>

fun mul_int_cell :: "cell \<Rightarrow> int \<Rightarrow> cell" where
  "mul_int_cell (Num x) k = Num (x * of_int k)"
| "mul_int_cell (Str s) k = Str (concat (replicate (nat k) s))"
| "mul_int_cell NaN k = NaN"

text \<open>\<open>x * f\<close> for a Python \<open>float\<close> \<open>f\<close>: a string raises.\<close>

fun mul_float_cell :: "cell \<Rightarrow> real \<Rightarrow> cell result" where
  "mul_float_cell (Num x) f = Inr (Num (x * f))"
| "mul_float_cell (Str s) f = Inl TypeError"
| "mul_float_cell NaN f = Inr NaN"

text \<open>\<open>x + y\<close>: numbers add, strings concatenate, NaN absorbs numbers, and a string
  with a number or NaN raises.\<close>

fun add_cell :: "cell \<Rightarrow> cell \<Rightarrow> cell result" where
  "add_cell (Num x) (Num y) = Inr (Num (x + y))"
| "add_cell (Str a) (Str b) = Inr (Str (a @ b))"
| "add_cell (Str a) (Num y) = Inl TypeError"
| "add_cell (Str a) NaN = Inl TypeError"
| "add_cell (Num x) (Str b) = Inl TypeError"
| "add_cell NaN (Str b) = Inl TypeError"
| "add_cell (Num x) NaN = Inr NaN"
| "add_cell NaN (Num y) = Inr NaN"
| "add_cell NaN NaN = Inr NaN"

text \<open>\<open>x == k\<close> for an \<open>int\<close> \<open>k\<close>: only a number can be equal, NaN equals nothing.\<close>

fun eq_int_cell :: "cell \<Rightarrow> int \<Rightarrow> bool" where
  "eq_int_cell (Num x) k = (x = of_int k)"
| "eq_int_cell (Str s) k = False"
| "eq_int_cell NaN k = False"

text \<open>\<open>x >= k\<close> for a number \<open>k\<close>: false for NaN, a string raises.\<close>

fun ge_cell :: "cell \<Rightarrow> real \<Rightarrow> bool result" where
  "ge_cell (Num x) k = Inr (k \<le> x)"
| "ge_cell (Str s) k = Inl TypeError"
| "ge_cell NaN k = Inr False"

text \<open>A string cell (the only kind on which the arithmetic above can raise).\<close>

fun is_str :: "cell \<Rightarrow> bool" where
  "is_str (Str s) = True"
| "is_str (Num x) = False"
| "is_str NaN = False"

section \<open>Vectorised operations\<close>

definition series_map_dict :: "(string \<times> int) list \<Rightarrow> series \<Rightarrow> series" where
  "series_map_dict d s = map (dict_lookup_cell d) s"

definition series_fillna :: "real \<Rightarrow> series \<Rightarrow> series" where
  "series_fillna v s = map (fillna_cell v) s"

definition series_mul_int :: "series \<Rightarrow> int \<Rightarrow> series" where
  "series_mul_int s k = map (\<lambda>x. mul_int_cell x k) s"

definition series_mul_float :: "series \<Rightarrow> real \<Rightarrow> series result" where
  "series_mul_float s f = seq_res (map (\<lambda>x. mul_float_cell x f) s)"

text \<open>\<open>s + t\<close> on two columns of the same frame (the same index).\<close>

definition series_add :: "series \<Rightarrow> series \<Rightarrow> series result" where
  "series_add s t = seq_res (map2 add_cell s t)"

text \<open>\<open>s.apply(f)\<close> for a Python function that may raise.\<close>

definition series_apply :: "(cell \<Rightarrow> cell result) \<Rightarrow> series \<Rightarrow> series result" where
  "series_apply f s = seq_res (map f s)"

section \<open>Lookup and update\<close>

lemma get_col_set_col [frame_simps]:
  "get_col (set_col df c s) c' = (if c' = c then Inr s else get_col df c')"
  by (induction df) (auto simp: get_col_def)

lemma set_col_fresh: "c \<notin> fst ` set df \<Longrightarrow> set_col df c s = df @ [(c, s)]"
  by (induction df) auto

lemma map_fst_set_col:
  "map fst (set_col df c s) = (if c \<in> fst ` set df then map fst df else map fst df @ [c])"
proof (induction df)
  case Nil
  then show ?case by simp
next
  case (Cons p df)
  obtain c' s' where p: "p = (c', s')" by (cases p)
  show ?case
  proof (cases "c' = c")
    case True
    with p show ?thesis by simp
  next
    case False
    with p Cons.IH show ?thesis by auto
  qed
qed

lemma fst_set_set_col [frame_simps]: "fst ` set (set_col df c s) = insert c (fst ` set df)"
  using map_fst_set_col [of df c s] by (metis insert_absorb list.set_map set_append
      Un_insert_right empty_set list.simps(15) sup_bot.right_neutral)

lemma set_set_col: "set (set_col df c s) \<subseteq> insert (c, s) (set df)"
  by (induction df) (auto split: if_splits)

lemma get_col_Inr_iff: "get_col df c = Inr s \<longleftrightarrow> map_of df c = Some s"
  by (simp add: get_col_def split: option.split)

lemma get_col_Inl_iff: "get_col df c = Inl e \<longleftrightarrow> c \<notin> fst ` set df \<and> e = KeyError c"
proof (cases "map_of df c")
  case None
  then have "c \<notin> fst ` set df" by (simp add: map_of_eq_None_iff)
  with None show ?thesis by (auto simp: get_col_def)
next
  case (Some s)
  then have "c \<in> fst ` set df" by (force dest: map_of_SomeD)
  with Some show ?thesis by (simp add: get_col_def)
qed

lemma get_col_length: "wf_frame n df \<Longrightarrow> get_col df c = Inr s \<Longrightarrow> length s = n"
  by (auto simp: wf_frame_def get_col_Inr_iff list_all_iff dest: map_of_SomeD)

lemma wf_frame_set_col: "wf_frame n df \<Longrightarrow> length s = n \<Longrightarrow> wf_frame n (set_col df c s)"
  using set_set_col [of df c s]
  by (auto simp: wf_frame_def map_fst_set_col list_all_iff distinct_map)

lemma bind_res_get_col:
  "bind_res (get_col df c) f = (if c \<in> fst ` set df then f (the (map_of df c)) else Inl (KeyError c))"
proof (cases "map_of df c")
  case None
  then have "c \<notin> fst ` set df" by (simp add: map_of_eq_None_iff)
  with None show ?thesis by (simp add: get_col_def)
next
  case (Some s)
  then have "c \<in> fst ` set df" by (force dest: map_of_SomeD)
  with Some show ?thesis by (simp add: get_col_def)
qed

lemma get_col_Nil: "get_col [] c = Inl (KeyError c)"
  by (simp add: get_col_def)

lemma get_col_Cons: "get_col ((c', s) # df) c = (if c' = c then Inr s else get_col df c)"
  by (simp add: get_col_def)

lemma get_col_append:
  "get_col (xs @ ys) c = (if c \<in> fst ` set xs then get_col xs c else get_col ys c)"
  by (induction xs) (force simp: get_col_Nil get_col_Cons)+

lemma set_col_append: "c \<notin> fst ` set xs \<Longrightarrow> set_col (xs @ ys) c s = xs @ set_col ys c s"
  by (induction xs) auto

text \<open>Selecting columns \<open>df[[c1, c2, ...]]\<close> reads them left to right.\<close>

lemma select_cols_Nil: "select_cols df [] = Inr []"
  by (simp add: select_cols_def)

lemma select_cols_Cons:
  "select_cols df (c # cs) =
     bind_res (get_col df c) (\<lambda>s. bind_res (select_cols df cs) (\<lambda>f. Inr ((c, s) # f)))"
  by (simp add: select_cols_def bind_res_def split: sum.split)

section \<open>Lengths of the vectorised operations\<close>

lemma series_length [frame_simps]:
  "length (series_map_dict d s) = length s"
  "length (series_fillna v s) = length s"
  "length (series_mul_int s k) = length s"
  by (simp_all add: series_map_dict_def series_fillna_def series_mul_int_def)

lemma series_mul_float_length: "series_mul_float s f = Inr t \<Longrightarrow> length t = length s"
  by (auto simp: series_mul_float_def dest: seq_res_Inr_length)

lemma series_add_length: "series_add s t = Inr u \<Longrightarrow> length u = min (length s) (length t)"
  by (auto simp: series_add_def dest: seq_res_Inr_length)

lemma series_apply_length: "series_apply f s = Inr t \<Longrightarrow> length t = length s"
  by (auto simp: series_apply_def dest: seq_res_Inr_length)

section \<open>Vectorised sums computed row by row\<close>

text \<open>
  A chain of column additions is the column of the row-wise chains, provided every
  error on the way is a \<open>TypeError\<close> (column-wise evaluation raises the error of the
  first failing column, row-wise evaluation that of the first failing row).
\<close>

lemma only_type_error_add_cell [simp]: "only_type_error (add_cell x y)"
  by (cases x; cases y) simp_all

lemma series_add_map_map:
  "series_add (map A xs) (map B ys) = seq_res (map2 (\<lambda>x y. add_cell (A x) (B y)) xs ys)"
  by (simp add: series_add_def zip_map_map comp_def split_def)

lemma series_add_map_mul_int:
  "series_add (map A xs) (series_mul_int ys k) =
   seq_res (map2 (\<lambda>x y. add_cell (A x) (mul_int_cell y k)) xs ys)"
  by (simp add: series_mul_int_def series_add_map_map)

lemma series_add_fuse:
  assumes "length xs = length ys" and "\<forall>x y. only_type_error (F x y)"
  shows "bind_res (seq_res (map2 F xs ys)) (\<lambda>acc. series_add acc (map G xs)) =
         seq_res (map2 (\<lambda>x y. bind_res (F x y) (\<lambda>a. add_cell a (G x))) xs ys)"
  using assms
proof (induction xs ys rule: list_induct2)
  case Nil
  then show ?case by (simp add: series_add_def)
next
  case (Cons x xs y ys)
  let ?R = "seq_res (map2 F xs ys)"
  let ?S = "seq_res (map2 (\<lambda>x y. bind_res (F x y) (\<lambda>a. add_cell a (G x))) xs ys)"
  have te_R: "only_type_error ?R"
    using Cons.prems by (intro only_type_error_seq_res) auto
  have te_S: "only_type_error ?S"
    using Cons.prems by (intro only_type_error_seq_res) auto
  show ?case
  proof (cases "F x y")
    case (Inl e)
    then show ?thesis by simp
  next
    case (Inr a)
    show ?thesis
    proof (cases ?R)
      case (Inl e)
      with Cons.IH Cons.prems have "?S = Inl e" by simp
      moreover have "only_type_error (add_cell a (G x))" by simp
      ultimately show ?thesis using Inr Inl te_R
        by (cases "add_cell a (G x)") (simp_all add: only_type_error_def)
    next
      case (Inr as)
      with Cons.IH Cons.prems \<open>F x y = Inr a\<close> show ?thesis
        by (cases "add_cell a (G x)") (simp_all add: series_add_def)
    qed
  qed
qed

lemma series_add_fuse_bind:
  "length xs = length ys \<Longrightarrow> \<forall>x y. only_type_error (F x y) \<Longrightarrow>
   bind_res (seq_res (map2 F xs ys)) (\<lambda>acc. bind_res (series_add acc (map G xs)) K) =
   bind_res (seq_res (map2 (\<lambda>x y. bind_res (F x y) (\<lambda>a. add_cell a (G x))) xs ys)) K"
  by (simp flip: series_add_fuse bind_res_assoc)

section \<open>Columns without strings\<close>

text \<open>
  On cells that are numbers or NaN the vectorised arithmetic never raises, and its
  results are again numbers or NaN.
\<close>

lemma add_cell_numeric:
  "\<not> is_str x \<Longrightarrow> \<not> is_str y \<Longrightarrow> \<exists>z. add_cell x y = Inr z \<and> \<not> is_str z"
  by (cases x; cases y) simp_all

lemma mul_float_cell_numeric:
  "\<not> is_str x \<Longrightarrow> \<exists>z. mul_float_cell x f = Inr z \<and> \<not> is_str z"
  by (cases x) simp_all

lemma mul_int_cell_numeric: "\<not> is_str x \<Longrightarrow> \<not> is_str (mul_int_cell x k)"
  by (cases x) simp_all

lemma fillna_dict_numeric: "\<not> is_str (fillna_cell v (dict_lookup_cell d x))"
  by (cases x) (simp_all split: option.split)

lemma series_add_numeric:
  assumes "length s = length t" "\<forall>x\<in>set s. \<not> is_str x" "\<forall>y\<in>set t. \<not> is_str y"
  shows "\<exists>u. series_add s t = Inr u \<and> length u = length s \<and> (\<forall>z\<in>set u. \<not> is_str z)"
proof -
  have "\<forall>p\<in>set (zip s t). \<exists>z. case_prod add_cell p = Inr z \<and> \<not> is_str z"
    using assms(2,3) by (auto dest: set_zip_leftD set_zip_rightD intro: add_cell_numeric)
  from seq_res_all_Inr [where f = "case_prod add_cell", OF this]
  obtain u where "seq_res (map (case_prod add_cell) (zip s t)) = Inr u" "\<forall>z\<in>set u. \<not> is_str z"
    by blast
  with assms(1) show ?thesis
    by (auto simp: series_add_def dest: series_add_length [unfolded series_add_def])
qed

lemma series_mul_float_numeric:
  assumes "\<forall>x\<in>set s. \<not> is_str x"
  shows "\<exists>t. series_mul_float s f = Inr t \<and> length t = length s \<and> (\<forall>z\<in>set t. \<not> is_str z)"
proof -
  have "\<forall>x\<in>set s. \<exists>z. mul_float_cell x f = Inr z \<and> \<not> is_str z"
    using assms by (blast intro: mul_float_cell_numeric)
  from seq_res_all_Inr [where f = "\<lambda>x. mul_float_cell x f", OF this]
  obtain t where "seq_res (map (\<lambda>x. mul_float_cell x f) s) = Inr t" "\<forall>z\<in>set t. \<not> is_str z"
    by blast
  then show ?thesis
    by (auto simp: series_mul_float_def dest: seq_res_Inr_length)
qed

lemma series_apply_total:
  assumes "\<forall>x\<in>set s. \<exists>y. f x = Inr y"
  shows "\<exists>t. series_apply f s = Inr t \<and> length t = length s"
proof -
  from assms have "\<forall>x\<in>set s. \<exists>y. f x = Inr y \<and> True" by simp
  from seq_res_all_Inr [where f = f, OF this] obtain t where "seq_res (map f s) = Inr t"
    by blast
  then show ?thesis by (auto simp: series_apply_def dest: seq_res_Inr_length)
qed

lemma numeric_dict_score: "\<forall>x\<in>set (series_mul_int (series_fillna v (series_map_dict d s)) k). \<not> is_str x"
  by (simp add: series_mul_int_def series_fillna_def series_map_dict_def mul_int_cell_numeric
      fillna_dict_numeric)

lemma numeric_mul_int: "\<forall>y\<in>set s. \<not> is_str y \<Longrightarrow> x \<in> set (series_mul_int s k) \<Longrightarrow> \<not> is_str x"
  by (auto simp: series_mul_int_def mul_int_cell_numeric)

text \<open>A string meeting a number in \<open>+\<close> raises \<open>TypeError\<close>, for the whole column.\<close>

lemma add_cell_str: "\<not> is_str x \<Longrightarrow> is_str y \<Longrightarrow> add_cell x y = Inl TypeError"
  by (cases x; cases y) simp_all

lemma series_add_str:
  assumes "length s = length t" "\<forall>x\<in>set s. \<not> is_str x" "\<exists>y\<in>set t. is_str y"
  shows "series_add s t = Inl TypeError"
proof -
  from assms(3) obtain i where i: "i < length t" "is_str (t ! i)"
    by (auto simp: in_set_conv_nth)
  with assms(1) have "(s ! i, t ! i) \<in> set (zip s t)"
    by (auto simp: in_set_zip)
  moreover from i assms(1,2) have "add_cell (s ! i) (t ! i) = Inl TypeError"
    by (simp add: add_cell_str)
  ultimately have "Inl TypeError \<in> set (map2 add_cell s t)"
    by force
  then show ?thesis unfolding series_add_def
    by (rule seq_res_Inl_TypeError) auto
qed

end
