(* ===== verification/Score_Frame.thy ===== *)
theory Score_Frame
  imports Scoring Frame
begin

text \<open>
  \<open>score_species\<close> (src/species_prioritization_app.py, lines 15--72) as pandas runs it:
  statement by statement on a DataFrame, each \<open>df[...]\<close> read a possible
  \<open>KeyError\<close>, each vectorised operation the element-wise Python operation of theory
  \<open>Frame\<close>, each assignment a column replaced or appended. The main result is the
  refinement: on a frame built from typed records (as the single-entry tab and the sample
  CSV build it), the column-wise computation returns exactly the frame of the rows that
  \<^const>\<open>score_row\<close> computes one at a time. On arbitrary well-formed frames the theory
  shows which inputs make it raise (a missing column, a string threat level) and that it
  raises nothing otherwise, keeping the frame well formed.
\<close>

section \<open>The lambdas on cells\<close>

text \<open>\<open>lambda x: 4 if x == 1 else 3 if x == 2 else 2 if x == 3 else 1\<close> (line 48).\<close>

definition habitat_lambda :: "cell \<Rightarrow> cell" where
  "habitat_lambda x =
     Num (if eq_int_cell x 1 then 4 else if eq_int_cell x 2 then 3
          else if eq_int_cell x 3 then 2 else 1)"

text \<open>\<open>lambda x: 1 if x == 0 else 2 if x == 1 else 3 if x == 2 else 4 if x == 3 else 5\<close>
  (line 52).\<close>

definition use_lambda :: "cell \<Rightarrow> cell" where
  "use_lambda x =
     Num (if eq_int_cell x 0 then 1 else if eq_int_cell x 1 then 2
          else if eq_int_cell x 2 then 3 else if eq_int_cell x 3 then 4 else 5)"

text \<open>The priority lambda (lines 65--70): the comparisons are made one after the other,
  so a later one is not evaluated once an earlier one holds.\<close>

definition priority_lambda :: "cell \<Rightarrow> cell result" where
  "priority_lambda x =
     bind_res (ge_cell x 39) (\<lambda>b1. if b1 then Inr (Str ''Critical'') else
     bind_res (ge_cell x 32) (\<lambda>b2. if b2 then Inr (Str ''High'') else
     bind_res (ge_cell x 24) (\<lambda>b3. if b3 then Inr (Str ''Medium'') else
     Inr (Str ''Low''))))"

section \<open>score\_species\<close>

text \<open>
  \<open>df["IUCN_Score"] + df["Endemism_Score"] + ... + df["Use_Score"]\<close> (lines 55--63),
  evaluated from the left: each operand is read from the frame, then added to the sum so
  far.
\<close>

fun add_columns :: "frame \<Rightarrow> series \<Rightarrow> string list \<Rightarrow> series result" where
  "add_columns df acc [] = Inr acc"
| "add_columns df acc (c # cs) =
     bind_res (get_col df c) (\<lambda>s. bind_res (series_add acc s) (\<lambda>acc'. add_columns df acc' cs))"

text \<open>
  The whole function, in the order of its statements. \<open>df.copy()\<close> makes the
  function's frame independent of the caller's, which a value-passing model has already.
\<close>

definition score_species :: "frame \<Rightarrow> frame result" where
  "score_species df0 =
    (let df = df0 in
     bind_res (get_col df ''IUCN_Status'') (\<lambda>c.
     let df = set_col df ''IUCN_Score''
                (series_mul_int (series_fillna 0 (series_map_dict iucn_map c)) 3) in
     bind_res (get_col df ''Endemism'') (\<lambda>c.
     let df = set_col df ''Endemism_Score''
                (series_mul_int (series_fillna 0 (series_map_dict endemism_map c)) 2) in
     bind_res (get_col df ''Threat_Level'') (\<lambda>c.
     let df = set_col df ''Threat_Score'' (series_mul_int c 3) in
     bind_res (get_col df ''Altitudinal_Range'') (\<lambda>c.
     let df = set_col df ''Altitude_Score''
                (series_mul_int (series_fillna 0 (series_map_dict altitude_map c)) 1) in
     bind_res (get_col df ''Exploitation'') (\<lambda>c.
     let df = set_col df ''Exploitation_Score''
                (series_mul_int (series_fillna 0 (series_map_dict exploitation_map c)) 2) in
     bind_res (get_col df ''Habitat_Specificity'') (\<lambda>c.
     bind_res (series_mul_float (map habitat_lambda c) (3 / 2)) (\<lambda>h.
     let df = set_col df ''Habitat_Score'' h in
     bind_res (get_col df ''Use_Value'') (\<lambda>c.
     bind_res (series_mul_float (map use_lambda c) (3 / 2)) (\<lambda>u.
     let df = set_col df ''Use_Score'' u in
     bind_res (get_col df ''IUCN_Score'') (\<lambda>s0.
     bind_res (add_columns df s0
       [''Endemism_Score'', ''Threat_Score'', ''Altitude_Score'', ''Exploitation_Score'',
        ''Habitat_Score'', ''Use_Score'']) (\<lambda>tot.
     let df = set_col df ''Total_Score'' tot in
     bind_res (get_col df ''Total_Score'') (\<lambda>t.
     bind_res (series_apply priority_lambda t) (\<lambda>p.
     Inr (set_col df ''Priority'' p)))))))))))))))"

section \<open>Frames of typed records\<close>

text \<open>
  The frame of a list of records, with the columns in the order of the single-entry
  DataFrame (lines 144--153) and of the sample CSV (lines 175--184): names and categorical
  values as strings, counts as numbers.
\<close>

definition records_frame :: "species_record list \<Rightarrow> frame" where
  "records_frame rs =
     [(''Species_Name'', map (\<lambda>r. Str (species_name r)) rs),
      (''IUCN_Status'', map (\<lambda>r. Str (iucn_status r)) rs),
      (''Endemism'', map (\<lambda>r. Str (endemism r)) rs),
      (''Threat_Level'', map (\<lambda>r. Num (of_int (threat_level r))) rs),
      (''Altitudinal_Range'', map (\<lambda>r. Str (altitudinal_range r)) rs),
      (''Exploitation'', map (\<lambda>r. Str (exploitation r)) rs),
      (''Habitat_Specificity'', map (\<lambda>r. Num (of_int (habitat_specificity r))) rs),
      (''Use_Value'', map (\<lambda>r. Num (of_int (use_value r))) rs)]"

text \<open>The nine columns \<open>score_species\<close> assigns, in the order it assigns them.\<close>

definition score_columns :: "string list" where
  "score_columns = [''IUCN_Score'', ''Endemism_Score'', ''Threat_Score'', ''Altitude_Score'',
     ''Exploitation_Score'', ''Habitat_Score'', ''Use_Score'', ''Total_Score'', ''Priority'']"

text \<open>The contents of those columns for scored rows.\<close>

definition score_cols :: "scored_species list \<Rightarrow> frame" where
  "score_cols ss =
     [(''IUCN_Score'', map (\<lambda>r. Num (iucn_score r)) ss),
      (''Endemism_Score'', map (\<lambda>r. Num (endemism_score r)) ss),
      (''Threat_Score'', map (\<lambda>r. Num (threat_score r)) ss),
      (''Altitude_Score'', map (\<lambda>r. Num (altitude_score r)) ss),
      (''Exploitation_Score'', map (\<lambda>r. Num (exploitation_score r)) ss),
      (''Habitat_Score'', map (\<lambda>r. Num (habitat_score r)) ss),
      (''Use_Score'', map (\<lambda>r. Num (use_score r)) ss),
      (''Total_Score'', map (\<lambda>r. Num (total_score r)) ss),
      (''Priority'', map (\<lambda>r. Str (priority_name (priority r))) ss)]"

text \<open>The frame \<open>score_species\<close> returns for scored rows: the input columns followed by
  the nine computed columns.\<close>

definition scored_frame :: "scored_species list \<Rightarrow> frame" where
  "scored_frame ss = records_frame (map species_record.truncate ss) @ score_cols ss"

text \<open>The input columns \<open>score_species\<close> reads, in the order it reads them.\<close>

definition required_columns :: "string list" where
  "required_columns = [''IUCN_Status'', ''Endemism'', ''Threat_Level'', ''Altitudinal_Range'',
     ''Exploitation'', ''Habitat_Specificity'', ''Use_Value'']"

section \<open>Rows with a raw threat cell\<close>

text \<open>
  A CSV file read by \<open>pd.read_csv\<close> may hold NaN (an empty field) or strings (a
  non-numeric entry) in the \<open>Threat_Level\<close> column, the only input column used
  without a lookup. \<open>row_total\<close> is one row of lines 55--63 for such a cell: the
  sub-scores of the other columns and the threat cell times 3 (line 32), added from the
  left.
\<close>

definition row_total :: "species_record \<Rightarrow> cell \<Rightarrow> cell result" where
  "row_total r t =
     bind_res (add_cell (Num (iucn_score_of (iucn_status r) + endemism_score_of (endemism r)))
                        (mul_int_cell t 3)) (\<lambda>a.
     bind_res (add_cell a (Num (altitude_score_of (altitudinal_range r)))) (\<lambda>a.
     bind_res (add_cell a (Num (exploitation_score_of (exploitation r)))) (\<lambda>a.
     bind_res (add_cell a (Num (habitat_score_of (habitat_specificity r)))) (\<lambda>a.
     add_cell a (Num (use_score_of (use_value r)))))))"

text \<open>The frame after line 53 for records whose threat column holds the cells
  \<open>ts\<close>.\<close>

definition scores_frame :: "species_record list \<Rightarrow> series \<Rightarrow> frame" where
  "scores_frame rs ts =
     set_col (records_frame rs) ''Threat_Level'' ts @
     [(''IUCN_Score'', map (\<lambda>r. Num (iucn_score_of (iucn_status r))) rs),
      (''Endemism_Score'', map (\<lambda>r. Num (endemism_score_of (endemism r))) rs),
      (''Threat_Score'', series_mul_int ts 3),
      (''Altitude_Score'', map (\<lambda>r. Num (altitude_score_of (altitudinal_range r))) rs),
      (''Exploitation_Score'', map (\<lambda>r. Num (exploitation_score_of (exploitation r))) rs),
      (''Habitat_Score'', map (\<lambda>r. Num (habitat_score_of (habitat_specificity r))) rs),
      (''Use_Score'', map (\<lambda>r. Num (use_score_of (use_value r))) rs)]"

section \<open>Column lemmas\<close>

lemma dict_column:
  "series_mul_int (series_fillna 0 (series_map_dict d (map (\<lambda>r. Str (f r)) rs))) k =
   map (\<lambda>r. Num (of_int (dict_code d (f r)) * of_int k)) rs"
  by (simp add: series_mul_int_def series_fillna_def series_map_dict_def dict_code_def
      split: option.split)

lemma habitat_lambda_Num: "habitat_lambda (Num (of_int n)) = Num (of_int (habitat_code n))"
  by (simp add: habitat_lambda_def habitat_code_def)

lemma use_lambda_Num: "use_lambda (Num (of_int n)) = Num (of_int (use_code n))"
  by (simp add: use_lambda_def use_code_def)

lemma priority_lambda_Num: "priority_lambda (Num x) = Inr (Str (priority_name (priority_of x)))"
  by (simp add: priority_lambda_def priority_of_def)

lemma habitat_lambda_eta:
  "habitat_lambda = (\<lambda>x. Num (if eq_int_cell x 1 then 4 else if eq_int_cell x 2 then 3
                              else if eq_int_cell x 3 then 2 else 1))"
  by (rule ext) (simp add: habitat_lambda_def)

lemma use_lambda_eta:
  "use_lambda = (\<lambda>x. Num (if eq_int_cell x 0 then 1 else if eq_int_cell x 1 then 2
                          else if eq_int_cell x 2 then 3 else if eq_int_cell x 3 then 4 else 5))"
  by (rule ext) (simp add: use_lambda_def)

lemma series_mul_int_Num:
  "series_mul_int (map (\<lambda>r. Num (f r)) rs) k = map (\<lambda>r. Num (f r * of_int k)) rs"
  by (simp add: series_mul_int_def)

lemma series_mul_float_Num:
  "series_mul_float (map (\<lambda>r. Num (f r)) rs) k = Inr (map (\<lambda>r. Num (f r * k)) rs)"
  by (simp add: series_mul_float_def comp_def)

lemma series_add_Num:
  "series_add (map (\<lambda>r. Num (f r)) rs) (map (\<lambda>r. Num (g r)) rs) =
   Inr (map (\<lambda>r. Num (f r + g r)) rs)"
  by (induction rs) (simp_all add: series_add_def)

lemma truncate_score_row [simp]: "species_record.truncate (score_row r) = r"
  by (simp add: score_row_def Let_def species_record.truncate_def)

lemmas score_frame_simps = frame_simps records_frame_def get_col_def dict_column comp_def
  habitat_lambda_Num use_lambda_Num series_mul_int_Num series_mul_float_Num series_add_Num
  series_apply_def priority_lambda_Num

lemma row_total_NaN: "row_total r NaN = Inr NaN"
  by (simp add: row_total_def)

lemma row_total_Num: "\<exists>y. row_total r (Num x) = Inr (Num y)"
  by (simp add: row_total_def)

lemma row_total_not_Str:
  "t = NaN \<or> (\<exists>x. t = Num x) \<Longrightarrow> \<exists>v. row_total r t = Inr v \<and> (v = NaN \<or> (\<exists>y. v = Num y))"
  using row_total_Num [of r] by (auto simp: row_total_NaN)

lemma priority_lambda_NaN: "priority_lambda NaN = Inr (Str ''Low'')"
  by (simp add: priority_lambda_def)

section \<open>Refinement\<close>

text \<open>On the frame of a list of records the column-wise computation is the row-wise one.\<close>

lemma score_species_records_frame:
  "score_species (records_frame rs) = Inr (scored_frame (score_records rs))"
  unfolding score_species_def Let_def
  by (simp add: score_frame_simps scored_frame_def score_cols_def score_records_def
      total_score_row iucn_score_of_def endemism_score_of_def threat_score_of_def
      altitude_score_of_def exploitation_score_of_def habitat_score_of_def use_score_of_def)

text \<open>
  C7. Refinement: on a DataFrame holding the eight input columns of any list of records,
  followed by any further columns (which a CSV file may carry) whose names are not among
  the nine the function writes, the column-wise \<open>score_species\<close> raises nothing and
  returns the input frame unchanged, with the nine computed columns appended, each
  holding, row by row, what \<^const>\<open>score_row\<close> computes for that row. So the output
  has as many rows as the input, row \<open>i\<close> of the output is the score of row \<open>i\<close> of
  the input, no row's score depends on another row, and the extra columns are kept.
\<close>

theorem score_species_refines:
  assumes "set (map fst extra) \<inter> set score_columns = {}"
  shows "score_species (records_frame rs @ extra) =
           Inr (records_frame rs @ extra @ score_cols (score_records rs))"
proof -
  from assms have fresh: "c \<in> set score_columns \<Longrightarrow> c \<notin> fst ` set extra" for c
    by auto
  then have "''IUCN_Score'' \<notin> fst ` set extra" "''Endemism_Score'' \<notin> fst ` set extra"
    "''Threat_Score'' \<notin> fst ` set extra" "''Altitude_Score'' \<notin> fst ` set extra"
    "''Exploitation_Score'' \<notin> fst ` set extra" "''Habitat_Score'' \<notin> fst ` set extra"
    "''Use_Score'' \<notin> fst ` set extra" "''Total_Score'' \<notin> fst ` set extra"
    "''Priority'' \<notin> fst ` set extra"
    by (simp_all add: score_columns_def)
  then show ?thesis
    unfolding score_species_def Let_def
    by (simp add: score_frame_simps get_col_Nil get_col_Cons get_col_append set_col_append set_col_fresh score_cols_def
        score_records_def total_score_row iucn_score_of_def endemism_score_of_def
        threat_score_of_def altitude_score_of_def exploitation_score_of_def habitat_score_of_def
        use_score_of_def del: get_col_def)
qed

theorem score_species_refines_witness:
  "score_species (records_frame [\<lparr>species_name = ''A'', iucn_status = ''Endangered'',
      endemism = ''Yes'', threat_level = 3, altitudinal_range = ''501-1000'',
      exploitation = ''Local use'', habitat_specificity = 2, use_value = 2\<rparr>] @
      [(''Notes'', [Str ''seen 2024''])]) =
   Inr (records_frame [\<lparr>species_name = ''A'', iucn_status = ''Endangered'',
      endemism = ''Yes'', threat_level = 3, altitudinal_range = ''501-1000'',
      exploitation = ''Local use'', habitat_specificity = 2, use_value = 2\<rparr>] @
      [(''Notes'', [Str ''seen 2024''])] @
      score_cols (score_records [\<lparr>species_name = ''A'', iucn_status = ''Endangered'',
      endemism = ''Yes'', threat_level = 3, altitudinal_range = ''501-1000'',
      exploitation = ''Local use'', habitat_specificity = 2, use_value = 2\<rparr>]))"
proof -
  have "set (map fst [(''Notes'', [Str ''seen 2024''])]) \<inter> set score_columns = {}"
    by (simp add: score_columns_def)
  then show ?thesis by (rule score_species_refines)
qed

text \<open>
  C20. Scoring is idempotent: a frame that already carries the nine computed columns of its
  rows (the report of the bulk tab, saved as CSV and uploaded again) is scored to itself.
  The computed columns are overwritten in place, with the same values, and the column
  order is kept.
\<close>

theorem score_species_idempotent:
  "score_species (scored_frame (score_records rs)) = Inr (scored_frame (score_records rs))"
  unfolding score_species_def Let_def scored_frame_def
  by (simp add: score_frame_simps get_col_Nil get_col_Cons get_col_append set_col_append
      score_cols_def score_records_def total_score_row iucn_score_of_def endemism_score_of_def
      threat_score_of_def altitude_score_of_def exploitation_score_of_def habitat_score_of_def
      use_score_of_def del: get_col_def)

section \<open>Totality on well-formed frames\<close>

lemma lambdas_numeric: "\<not> is_str (habitat_lambda x)" "\<not> is_str (use_lambda x)"
  by (simp_all add: habitat_lambda_def use_lambda_def)

lemma priority_lambda_total: "\<not> is_str x \<Longrightarrow> \<exists>y. priority_lambda x = Inr y"
  by (cases x) (simp_all add: priority_lambda_NaN priority_lambda_Num)

lemma add_columns_numeric:
  assumes "\<forall>c\<in>set cs. \<exists>s. get_col df c = Inr s \<and> length s = length acc \<and> (\<forall>x\<in>set s. \<not> is_str x)"
    and "\<forall>x\<in>set acc. \<not> is_str x"
  shows "\<exists>t. add_columns df acc cs = Inr t \<and> length t = length acc \<and> (\<forall>x\<in>set t. \<not> is_str x)"
  using assms
proof (induction cs arbitrary: acc)
  case Nil
  then show ?case by simp
next
  case (Cons c cs)
  then obtain s where s: "get_col df c = Inr s" "length s = length acc" "\<forall>x\<in>set s. \<not> is_str x"
    by auto
  with Cons.prems(2) obtain u where u: "series_add acc s = Inr u" "length u = length acc"
      "\<forall>x\<in>set u. \<not> is_str x"
    using series_add_numeric [of acc s] by auto
  with Cons.prems(1) Cons.IH [of u] obtain t where
    "add_columns df u cs = Inr t" "length t = length u" "\<forall>x\<in>set t. \<not> is_str x"
    by auto
  with s u show ?case by simp
qed

lemma required_col:
  assumes "wf_frame n df" "c \<in> fst ` set df"
  shows "\<exists>s. get_col df c = Inr s \<and> length s = n"
proof -
  from assms(2) obtain s where "map_of df c = Some s"
    by (metis map_of_eq_None_iff not_None_eq)
  with assms(1) show ?thesis by (auto simp: get_col_Inr_iff intro: get_col_length)
qed

text \<open>The seven sub-score assignments (lines 17--53) on a well-formed frame.\<close>

lemma score_species_sub_scores:
  assumes wf: "wf_frame n df"
    and req: "set required_columns \<subseteq> fst ` set df"
    and thr: "get_col df ''Threat_Level'' = Inr t"
  obtains df7 s1 where "wf_frame n df7" "length s1 = n" "\<forall>x\<in>set s1. \<not> is_str x"
    "get_col df7 ''Threat_Score'' = Inr (series_mul_int t 3)"
    "\<forall>c\<in>{''Endemism_Score'', ''Altitude_Score'', ''Exploitation_Score'', ''Habitat_Score'',
       ''Use_Score''}. \<exists>s. get_col df7 c = Inr s \<and> length s = n \<and> (\<forall>x\<in>set s. \<not> is_str x)"
    "insert ''Total_Score'' (insert ''Priority'' (fst ` set df7)) = fst ` set df \<union> set score_columns"
    "\<forall>c. c \<notin> set score_columns \<longrightarrow> get_col df7 c = get_col df c"
    "score_species df =
       bind_res (add_columns df7 s1 [''Endemism_Score'', ''Threat_Score'', ''Altitude_Score'',
         ''Exploitation_Score'', ''Habitat_Score'', ''Use_Score'']) (\<lambda>tot.
       bind_res (series_apply priority_lambda tot) (\<lambda>p.
       Inr (set_col (set_col df7 ''Total_Score'' tot) ''Priority'' p)))"
proof -
  from req obtain c1 c2 c4 c5 c6 c7 where
    c: "get_col df ''IUCN_Status'' = Inr c1" "length c1 = n"
       "get_col df ''Endemism'' = Inr c2" "length c2 = n"
       "get_col df ''Altitudinal_Range'' = Inr c4" "length c4 = n"
       "get_col df ''Exploitation'' = Inr c5" "length c5 = n"
       "get_col df ''Habitat_Specificity'' = Inr c6" "length c6 = n"
       "get_col df ''Use_Value'' = Inr c7" "length c7 = n"
    using required_col [OF wf] by (simp add: required_columns_def) metis
  have lt: "length t = n" using wf thr by (rule get_col_length)
  obtain h where h: "series_mul_float (map habitat_lambda c6) (3 / 2) = Inr h" "length h = n"
      "\<forall>x\<in>set h. \<not> is_str x"
    using series_mul_float_numeric [of "map habitat_lambda c6" "3 / 2"] c lambdas_numeric by auto
  obtain u where u: "series_mul_float (map use_lambda c7) (3 / 2) = Inr u" "length u = n"
      "\<forall>x\<in>set u. \<not> is_str x"
    using series_mul_float_numeric [of "map use_lambda c7" "3 / 2"] c lambdas_numeric by auto
  define s1 where "s1 = series_mul_int (series_fillna 0 (series_map_dict iucn_map c1)) 3"
  define df7 where "df7 =
    set_col (set_col (set_col (set_col (set_col (set_col (set_col df
      ''IUCN_Score'' s1)
      ''Endemism_Score'' (series_mul_int (series_fillna 0 (series_map_dict endemism_map c2)) 2))
      ''Threat_Score'' (series_mul_int t 3))
      ''Altitude_Score'' (series_mul_int (series_fillna 0 (series_map_dict altitude_map c4)) 1))
      ''Exploitation_Score'' (series_mul_int (series_fillna 0 (series_map_dict exploitation_map c5)) 2))
      ''Habitat_Score'' h)
      ''Use_Score'' u"
  show thesis
  proof (rule that [of df7 s1])
    show "wf_frame n df7"
      unfolding df7_def s1_def using wf c h u lt by (simp add: wf_frame_set_col frame_simps)
    show "length s1 = n" "\<forall>x\<in>set s1. \<not> is_str x"
      using c by (simp_all add: s1_def frame_simps numeric_dict_score)
    show "get_col df7 ''Threat_Score'' = Inr (series_mul_int t 3)"
      by (simp add: df7_def frame_simps)
    show "\<forall>c\<in>{''Endemism_Score'', ''Altitude_Score'', ''Exploitation_Score'', ''Habitat_Score'',
       ''Use_Score''}. \<exists>s. get_col df7 c = Inr s \<and> length s = n \<and> (\<forall>x\<in>set s. \<not> is_str x)"
      using c h u by (simp add: df7_def frame_simps numeric_dict_score)
    show "insert ''Total_Score'' (insert ''Priority'' (fst ` set df7)) =
        fst ` set df \<union> set score_columns"
      by (auto simp: df7_def frame_simps score_columns_def)
    show "\<forall>c. c \<notin> set score_columns \<longrightarrow> get_col df7 c = get_col df c"
      by (simp add: df7_def frame_simps score_columns_def)
    show "score_species df =
       bind_res (add_columns df7 s1 [''Endemism_Score'', ''Threat_Score'', ''Altitude_Score'',
         ''Exploitation_Score'', ''Habitat_Score'', ''Use_Score'']) (\<lambda>tot.
       bind_res (series_apply priority_lambda tot) (\<lambda>p.
       Inr (set_col (set_col df7 ''Total_Score'' tot) ''Priority'' p)))"
      using c thr h(1) u(1) unfolding score_species_def Let_def df7_def s1_def
      by (simp add: frame_simps)
  qed
qed

text \<open>
  C15. Totality and frame invariant: on any well-formed frame (distinct column names, all
  columns of one length \<open>n\<close>) that has the seven input columns and no string in its
  \<open>Threat_Level\<close> column, \<^const>\<open>score_species\<close> raises nothing, whatever the other cells hold
  (unknown categories, numbers in categorical columns, strings in count columns, NaN
  anywhere). The result is again well formed with \<open>n\<close> rows, its columns are the input's
  and the nine computed ones, and every column not named like a computed one is unchanged.
  With C9 this gives the whole story of \<open>TypeError\<close>: only a string threat level raises it.
\<close>

theorem score_species_total:
  assumes wf: "wf_frame n df"
    and req: "set required_columns \<subseteq> fst ` set df"
    and thr: "get_col df ''Threat_Level'' = Inr t" "\<forall>x\<in>set t. \<not> is_str x"
  shows "\<exists>df'. score_species df = Inr df' \<and> wf_frame n df' \<and>
           fst ` set df' = fst ` set df \<union> set score_columns \<and>
           (\<forall>c. c \<notin> set score_columns \<longrightarrow> get_col df' c = get_col df c)"
proof -
  have lt: "length t = n" using wf thr(1) by (rule get_col_length)
  obtain df7 s1 where d: "wf_frame n df7" "length s1 = n" "\<forall>x\<in>set s1. \<not> is_str x"
    "get_col df7 ''Threat_Score'' = Inr (series_mul_int t 3)"
    "\<forall>c\<in>{''Endemism_Score'', ''Altitude_Score'', ''Exploitation_Score'', ''Habitat_Score'',
       ''Use_Score''}. \<exists>s. get_col df7 c = Inr s \<and> length s = n \<and> (\<forall>x\<in>set s. \<not> is_str x)"
    "insert ''Total_Score'' (insert ''Priority'' (fst ` set df7)) = fst ` set df \<union> set score_columns"
    "\<forall>c. c \<notin> set score_columns \<longrightarrow> get_col df7 c = get_col df c"
    and run: "score_species df =
       bind_res (add_columns df7 s1 [''Endemism_Score'', ''Threat_Score'', ''Altitude_Score'',
         ''Exploitation_Score'', ''Habitat_Score'', ''Use_Score'']) (\<lambda>tot.
       bind_res (series_apply priority_lambda tot) (\<lambda>p.
       Inr (set_col (set_col df7 ''Total_Score'' tot) ''Priority'' p)))"
    by (rule score_species_sub_scores [OF wf req thr(1)])
  have "\<exists>tot. add_columns df7 s1 [''Endemism_Score'', ''Threat_Score'', ''Altitude_Score'',
      ''Exploitation_Score'', ''Habitat_Score'', ''Use_Score''] = Inr tot \<and> length tot = length s1 \<and>
      (\<forall>x\<in>set tot. \<not> is_str x)"
    by (rule add_columns_numeric) (use d lt thr(2) in \<open>auto simp: frame_simps numeric_mul_int\<close>)
  then obtain tot where tot: "add_columns df7 s1 [''Endemism_Score'', ''Threat_Score'',
      ''Altitude_Score'', ''Exploitation_Score'', ''Habitat_Score'', ''Use_Score''] = Inr tot"
      "length tot = length s1" "\<forall>x\<in>set tot. \<not> is_str x"
    by blast
  obtain p where p: "series_apply priority_lambda tot = Inr p" "length p = n"
    using series_apply_total [of tot priority_lambda] tot(2,3) d(2) priority_lambda_total by auto
  have "fst ` set (set_col (set_col df7 ''Total_Score'' tot) ''Priority'' p) =
      insert ''Total_Score'' (insert ''Priority'' (fst ` set df7))"
    by (simp add: frame_simps insert_commute)
  with d(6) have "fst ` set (set_col (set_col df7 ''Total_Score'' tot) ''Priority'' p) =
      fst ` set df \<union> set score_columns"
    by simp
  moreover have "get_col (set_col (set_col df7 ''Total_Score'' tot) ''Priority'' p) c = get_col df c"
    if "c \<notin> set score_columns" for c
    using that d(7) by (simp add: frame_simps score_columns_def)
  moreover have "wf_frame n (set_col (set_col df7 ''Total_Score'' tot) ''Priority'' p)"
    using d(1,2) tot(2) p(2) by (simp add: wf_frame_set_col)
  ultimately show ?thesis using run tot(1) p(1) by simp
qed

theorem score_species_total_witness:
  "\<exists>df'. score_species
     [(''IUCN_Status'', [Str ''Unknown'', NaN]), (''Endemism'', [Num 1, Str ''Yes'']),
      (''Threat_Level'', [NaN, Num 7]), (''Altitudinal_Range'', [Str ''<500'', Str ''high'']),
      (''Exploitation'', [Str ''Local use'', NaN]), (''Habitat_Specificity'', [Str ''two'', Num 2]),
      (''Use_Value'', [NaN, Num 12]), (''Notes'', [Str ''seen'', Num 0])] = Inr df' \<and>
     wf_frame 2 df' \<and> ''Notes'' \<in> fst ` set df'"
proof -
  define df where "df = [(''IUCN_Status'', [Str ''Unknown'', NaN]), (''Endemism'', [Num 1, Str ''Yes'']),
      (''Threat_Level'', [NaN, Num 7]), (''Altitudinal_Range'', [Str ''<500'', Str ''high'']),
      (''Exploitation'', [Str ''Local use'', NaN]), (''Habitat_Specificity'', [Str ''two'', Num 2]),
      (''Use_Value'', [NaN, Num 12]), (''Notes'', [Str ''seen'', Num 0])]"
  have wf: "wf_frame 2 df" by (simp add: df_def wf_frame_def)
  have req: "set required_columns \<subseteq> fst ` set df" by (simp add: df_def required_columns_def)
  have thr: "get_col df ''Threat_Level'' = Inr [NaN, Num 7]" by (simp add: df_def get_col_def)
  have num: "\<forall>x\<in>set [NaN, Num 7]. \<not> is_str x" by simp
  have nt: "''Notes'' \<in> fst ` set df" "''Notes'' \<notin> set score_columns"
    by (simp_all add: df_def score_columns_def)
  from score_species_total [OF wf req thr num] nt obtain df' where
    "score_species df = Inr df'" "wf_frame 2 df'" "''Notes'' \<in> fst ` set df'"
    by blast
  then show ?thesis unfolding df_def by blast
qed

section \<open>Errors\<close>

text \<open>
  C8. A frame without one of the seven input columns is rejected with \<open>KeyError\<close>
  naming the first missing column in the order the function reads them (IUCN_Status,
  Endemism, Threat_Level, Altitudinal_Range, Exploitation, Habitat_Specificity,
  Use_Value); no error of another kind comes first. A frame lacking only
  \<open>Species_Name\<close> is scored (the name is only read by the tabs).
\<close>

theorem score_species_missing_column:
  assumes "find (\<lambda>c. c \<notin> fst ` set df) required_columns = Some c"
  shows "score_species df = Inl (KeyError c)"
  using assms unfolding score_species_def Let_def required_columns_def
  by (simp add: bind_res_get_col frame_simps habitat_lambda_eta use_lambda_eta
      series_mul_float_Num split: if_splits)

theorem score_species_missing_column_witness:
  "find (\<lambda>c. c \<notin> fst ` set [(''Species_Name'', [Str ''A'']), (''IUCN_Status'', [Str ''Endangered'']),
       (''Endemism'', [Str ''Yes'']), (''Threat_Level'', [Num 3]),
       (''Altitudinal_Range'', [Str ''501-1000'']), (''exploitation'', [Str ''Local use'']),
       (''Habitat_Specificity'', [Num 2]), (''Use_Value'', [Num 2])]) required_columns
     = Some ''Exploitation'' \<and>
   score_species [(''Species_Name'', [Str ''A'']), (''IUCN_Status'', [Str ''Endangered'']),
       (''Endemism'', [Str ''Yes'']), (''Threat_Level'', [Num 3]),
       (''Altitudinal_Range'', [Str ''501-1000'']), (''exploitation'', [Str ''Local use'']),
       (''Habitat_Specificity'', [Num 2]), (''Use_Value'', [Num 2])]
     = Inl (KeyError ''Exploitation'')"
  (is "?h \<and> _")
proof -
  have h: ?h by (simp add: required_columns_def)
  show ?thesis using h score_species_missing_column [OF h] by blast
qed

section \<open>Raw threat cells\<close>

text \<open>On a frame whose threat column holds arbitrary cells, the function is the row-wise
  total followed by the priority lambda.\<close>

lemma score_species_threat_cells:
  assumes "length ts = length rs"
  shows "score_species (set_col (records_frame rs) ''Threat_Level'' ts) =
    bind_res (seq_res (map2 row_total rs ts)) (\<lambda>tot.
    bind_res (series_apply priority_lambda tot) (\<lambda>p.
    Inr (set_col (set_col (scores_frame rs ts) ''Total_Score'' tot) ''Priority'' p)))"
  using assms unfolding score_species_def Let_def
  by (simp add: score_frame_simps series_add_map_mul_int series_add_fuse_bind
      bind_res_assoc scores_frame_def row_total_def iucn_score_of_def endemism_score_of_def
      altitude_score_of_def exploitation_score_of_def habitat_score_of_def use_score_of_def)

text \<open>
  C9. On any well-formed frame holding the seven input columns, a string anywhere in the
  \<open>Threat_Level\<close> column (for instance \<open>"high"\<close>, which makes \<open>read_csv\<close> read the
  column as strings) makes the total raise \<open>TypeError\<close>, whatever the other cells hold:
  the string is repeated three times by \<open>* 3\<close> and then added to the number in the
  running sum. No row of the frame is scored.
\<close>

theorem score_species_threat_string:
  assumes wf: "wf_frame n df"
    and req: "set required_columns \<subseteq> fst ` set df"
    and thr: "get_col df ''Threat_Level'' = Inr t" "Str s \<in> set t"
  shows "score_species df = Inl TypeError"
proof -
  have lt: "length t = n" using wf thr(1) by (rule get_col_length)
  obtain df7 s1 where d: "wf_frame n df7" "length s1 = n" "\<forall>x\<in>set s1. \<not> is_str x"
    "get_col df7 ''Threat_Score'' = Inr (series_mul_int t 3)"
    "\<forall>c\<in>{''Endemism_Score'', ''Altitude_Score'', ''Exploitation_Score'', ''Habitat_Score'',
       ''Use_Score''}. \<exists>s. get_col df7 c = Inr s \<and> length s = n \<and> (\<forall>x\<in>set s. \<not> is_str x)"
    "insert ''Total_Score'' (insert ''Priority'' (fst ` set df7)) = fst ` set df \<union> set score_columns"
    "\<forall>c. c \<notin> set score_columns \<longrightarrow> get_col df7 c = get_col df c"
    and run: "score_species df =
       bind_res (add_columns df7 s1 [''Endemism_Score'', ''Threat_Score'', ''Altitude_Score'',
         ''Exploitation_Score'', ''Habitat_Score'', ''Use_Score'']) (\<lambda>tot.
       bind_res (series_apply priority_lambda tot) (\<lambda>p.
       Inr (set_col (set_col df7 ''Total_Score'' tot) ''Priority'' p)))"
    by (rule score_species_sub_scores [OF wf req thr(1)])
  from d(5) obtain e where e: "get_col df7 ''Endemism_Score'' = Inr e" "length e = n"
      "\<forall>x\<in>set e. \<not> is_str x"
    by auto
  from series_add_numeric [of s1 e] d(2,3) e obtain a where a: "series_add s1 e = Inr a"
      "length a = n" "\<forall>x\<in>set a. \<not> is_str x"
    by auto
  have "\<exists>y\<in>set (series_mul_int t 3). is_str y"
  proof (rule bexI)
    show "mul_int_cell (Str s) 3 \<in> set (series_mul_int t 3)"
      unfolding series_mul_int_def set_map using thr(2) by (rule imageI)
  qed simp
  then have "series_add a (series_mul_int t 3) = Inl TypeError"
    using a lt by (intro series_add_str) (simp_all add: frame_simps)
  with run d(4) e(1) a(1) show ?thesis by simp
qed

theorem score_species_threat_string_witness:
  "score_species [(''Species_Name'', [Str ''A'', Str ''B'']),
      (''IUCN_Status'', [Str ''Endangered'', Str ''Vulnerable'']), (''Endemism'', [Str ''Yes'', Str ''No'']),
      (''Threat_Level'', [Num 3, Str ''high'']), (''Altitudinal_Range'', [Str ''<500'', Str ''>1500'']),
      (''Exploitation'', [Str ''Local use'', NaN]), (''Habitat_Specificity'', [Num 2, Num 1]),
      (''Use_Value'', [Num 2, Num 0])] = Inl TypeError"
proof -
  define df where "df = [(''Species_Name'', [Str ''A'', Str ''B'']),
      (''IUCN_Status'', [Str ''Endangered'', Str ''Vulnerable'']), (''Endemism'', [Str ''Yes'', Str ''No'']),
      (''Threat_Level'', [Num 3, Str ''high'']), (''Altitudinal_Range'', [Str ''<500'', Str ''>1500'']),
      (''Exploitation'', [Str ''Local use'', NaN]), (''Habitat_Specificity'', [Num 2, Num 1]),
      (''Use_Value'', [Num 2, Num 0])]"
  have wf: "wf_frame 2 df" by (simp add: df_def wf_frame_def)
  have req: "set required_columns \<subseteq> fst ` set df" by (simp add: df_def required_columns_def)
  have thr: "get_col df ''Threat_Level'' = Inr [Num 3, Str ''high'']" by (simp add: df_def get_col_def)
  have str: "Str ''high'' \<in> set [Num 3, Str ''high'']" by simp
  from score_species_threat_string [OF wf req thr str] show ?thesis by (simp add: df_def)
qed

text \<open>
  C10. A missing threat level (NaN) is not an error: the row's \<open>Total_Score\<close> is NaN
  and, since \<open>NaN >= 39\<close>, \<open>NaN >= 32\<close> and \<open>NaN >= 24\<close> are all false, its
  priority is \<open>Low\<close>, whatever its other columns say; the function returns a frame.
\<close>

theorem score_species_nan_threat:
  assumes len: "length ts = length rs" and cells: "\<forall>t\<in>set ts. t = NaN \<or> (\<exists>x. t = Num x)"
    and i: "i < length rs" and nan: "ts ! i = NaN"
  shows "\<exists>df. score_species (set_col (records_frame rs) ''Threat_Level'' ts) = Inr df \<and>
           (\<exists>tot pr. get_col df ''Total_Score'' = Inr tot \<and> get_col df ''Priority'' = Inr pr \<and>
                     tot ! i = NaN \<and> pr ! i = Str ''Low'')"
proof -
  have "\<forall>p\<in>set (zip rs ts). \<exists>v. case_prod row_total p = Inr v \<and> (v = NaN \<or> (\<exists>y. v = Num y))"
  proof
    fix p assume p_in: "p \<in> set (zip rs ts)"
    obtain r t where p: "p = (r, t)" by (cases p)
    with p_in have "t \<in> set ts" by (auto dest: set_zip_rightD)
    with cells have "t = NaN \<or> (\<exists>x. t = Num x)" by blast
    with p show "\<exists>v. case_prod row_total p = Inr v \<and> (v = NaN \<or> (\<exists>y. v = Num y))"
      using row_total_not_Str by simp
  qed
  then have "\<exists>vs. seq_res (map (case_prod row_total) (zip rs ts)) = Inr vs \<and>
      (\<forall>v\<in>set vs. v = NaN \<or> (\<exists>y. v = Num y))"
    by (rule seq_res_all_Inr)
  then obtain tot where tot: "seq_res (map2 row_total rs ts) = Inr tot"
    and tot_cells: "\<forall>v\<in>set tot. v = NaN \<or> (\<exists>y. v = Num y)"
    by blast
  from tot have len_tot: "length tot = length rs"
    using len by (auto dest: seq_res_Inr_length)
  from tot have "map2 row_total rs ts ! i = Inr (tot ! i)"
    using len i by (intro seq_res_Inr_nth) simp_all
  with len i nan have tot_i: "tot ! i = NaN"
    by (simp add: row_total_NaN)
  have "\<forall>c\<in>set tot. \<exists>v. priority_lambda c = Inr v \<and> True"
    using tot_cells by (auto simp: priority_lambda_NaN priority_lambda_Num)
  then have "\<exists>vs. seq_res (map priority_lambda tot) = Inr vs \<and> (\<forall>v\<in>set vs. True)"
    by (rule seq_res_all_Inr)
  then obtain pr where pr: "seq_res (map priority_lambda tot) = Inr pr"
    by blast
  from pr have "map priority_lambda tot ! i = Inr (pr ! i)"
    using len_tot i by (intro seq_res_Inr_nth) simp_all
  with len_tot i tot_i have pr_i: "pr ! i = Str ''Low''"
    by (simp add: priority_lambda_NaN)
  show ?thesis
    using len tot pr tot_i pr_i
    by (simp add: score_species_threat_cells series_apply_def frame_simps)
qed

theorem score_species_nan_threat_witness:
  "\<exists>df. score_species (set_col (records_frame [\<lparr>species_name = ''A'', iucn_status = ''Critically Endangered'',
      endemism = ''Yes'', threat_level = 5, altitudinal_range = ''<500'',
      exploitation = ''Commercial use'', habitat_specificity = 1, use_value = 4\<rparr>]) ''Threat_Level'' [NaN]) = Inr df \<and>
    (\<exists>tot pr. get_col df ''Total_Score'' = Inr tot \<and> get_col df ''Priority'' = Inr pr \<and>
              tot ! 0 = NaN \<and> pr ! 0 = Str ''Low'')"
proof -
  have l: "length [NaN] = length [\<lparr>species_name = ''A'', iucn_status = ''Critically Endangered'',
      endemism = ''Yes'', threat_level = 5, altitudinal_range = ''<500'',
      exploitation = ''Commercial use'', habitat_specificity = 1, use_value = 4\<rparr>]" by simp
  have c: "\<forall>t\<in>set [NaN]. t = NaN \<or> (\<exists>x. t = Num x)" by simp
  have n: "[NaN] ! 0 = NaN" by simp
  show ?thesis using score_species_nan_threat [OF l c _ n] by simp
qed

end
