(* ===== verification/App.thy ===== *)
theory App
  imports Score_Frame
begin

text \<open>
  The Streamlit script around \<open>score_species\<close> (src/species_prioritization_app.py,
  lines 77--225). Streamlit runs the whole script from the top on every interaction; the
  three tabs are filled one after the other, and an exception raised while filling a tab
  stops the run, so the tabs after it show nothing. A run is modelled as a function from
  the user's inputs (the uploaded file, the form's widget values, the button) to the list
  of tab contents rendered, in order, and the exception that stopped the run, if any.
  Reading the CSV (\<open>pd.read_csv\<close>) and writing Excel (\<open>to_excel\<close>) are library I/O:
  the model starts from the parsed frame and records which frame is written to which file.
\<close>

section \<open>Tab contents\<close>

text \<open>What a tab shows: a table and a download (file name and the frame written to it).\<close>

record download =
  file_name :: string
  sheet :: frame

record bulk_page =
  bulk_table :: frame
  bulk_report :: download

record single_page =
  single_table :: frame
  single_report :: download

record downloads_page =
  sample_csv :: download
  criteria_guide :: download

datatype tab_output = Bulk bulk_page | Single single_page | Downloads downloads_page

text \<open>One run of the script: the contents rendered, in order, and the exception that
  stopped it (\<open>None\<close> when the script ran to its end).\<close>

record app_run_result =
  rendered :: "tab_output list"
  raised :: "py_error option"

section \<open>Bulk prioritization (lines 85--104)\<close>

definition bulk_tab :: "frame option \<Rightarrow> bulk_page option result" where
  "bulk_tab upload =
     (case upload of
        None \<Rightarrow> Inr None
      | Some df \<Rightarrow>
          bind_res (score_species df) (\<lambda>result.
          bind_res (select_cols result [''Species_Name'', ''Priority'']) (\<lambda>shown.
          Inr (Some \<lparr>bulk_table = shown,
                     bulk_report = \<lparr>file_name = ''species_prioritization_report.xlsx'',
                                    sheet = result\<rparr>\<rparr>))))"

section \<open>Single species entry (lines 109--167)\<close>

text \<open>The options of the select boxes and the ranges of the slider and number inputs.\<close>

definition iucn_options :: "string list" where
  "iucn_options = [''Critically Endangered'', ''Endangered'', ''Vulnerable'',
     ''Near Threatened'', ''Least Concern'']"

definition endemism_options :: "string list" where
  "endemism_options = [''Yes'', ''No'']"

definition altitude_options :: "string list" where
  "altitude_options = [''<500'', ''501-1000'', ''1001-1500'', ''>1500'']"

definition exploitation_options :: "string list" where
  "exploitation_options = [''Not exploited'', ''Local use'', ''Commercial use'']"

text \<open>
  The values the widgets can return: a select box returns one of its options, the slider
  an integer in \<open>[1, 5]\<close>, the number inputs integers in \<open>[1, 10]\<close> and \<open>[0, 10]\<close>;
  the name is free text.
\<close>

definition form_valid :: "species_record \<Rightarrow> bool" where
  "form_valid r \<longleftrightarrow>
     iucn_status r \<in> set iucn_options \<and> endemism r \<in> set endemism_options \<and>
     1 \<le> threat_level r \<and> threat_level r \<le> 5 \<and>
     altitudinal_range r \<in> set altitude_options \<and> exploitation r \<in> set exploitation_options \<and>
     1 \<le> habitat_specificity r \<and> habitat_specificity r \<le> 10 \<and>
     0 \<le> use_value r \<and> use_value r \<le> 10"

text \<open>The widgets' initial values: first options, slider at 3, habitat 1, use 1.\<close>

definition form_default :: species_record where
  "form_default =
     \<lparr>species_name = '''', iucn_status = ''Critically Endangered'', endemism = ''Yes'',
      threat_level = 3, altitudinal_range = ''<500'', exploitation = ''Not exploited'',
      habitat_specificity = 1, use_value = 1\<rparr>"

text \<open>The one-row DataFrame built from the widgets when the button is pressed.\<close>

definition single_frame :: "species_record \<Rightarrow> frame" where
  "single_frame r = records_frame [r]"

definition single_tab :: "species_record \<Rightarrow> bool \<Rightarrow> single_page option result" where
  "single_tab r run =
     (if run then
        bind_res (score_species (single_frame r)) (\<lambda>result.
        bind_res (select_cols result [''Species_Name'', ''Priority'']) (\<lambda>shown.
        Inr (Some \<lparr>single_table = shown,
                   single_report = \<lparr>file_name = ''single_species_report.xlsx'',
                                    sheet = result\<rparr>\<rparr>)))
      else Inr None)"

section \<open>Downloads (lines 172--225)\<close>

definition sample_records :: "species_record list" where
  "sample_records =
     [\<lparr>species_name = ''Species A'', iucn_status = ''Endangered'', endemism = ''Yes'',
       threat_level = 3, altitudinal_range = ''501-1000'', exploitation = ''Local use'',
       habitat_specificity = 2, use_value = 2\<rparr>,
      \<lparr>species_name = ''Species B'', iucn_status = ''Vulnerable'', endemism = ''No'',
       threat_level = 2, altitudinal_range = ''1001-1500'', exploitation = ''Not exploited'',
       habitat_specificity = 1, use_value = 1\<rparr>]"

definition sample_frame :: frame where
  "sample_frame = records_frame sample_records"

text \<open>The two non-ASCII characters of the criteria guide, as their UTF-8 bytes.\<close>

definition en_dash :: string where
  "en_dash = [CHR 0xE2, CHR 0x80, CHR 0x93]"

definition times_sign :: string where
  "times_sign = [CHR 0xC3, CHR 0x97]"

definition criteria_frame :: frame where
  "criteria_frame =
     [(''Criterion'', map Str [''IUCN Status'', ''Endemism'', ''Threat Level'',
         ''Altitudinal Range'', ''Exploitation'', ''Habitat Specificity'', ''Use Value'']),
      (''Description'', map Str [''Conservation status of the species'',
         ''Whether the species is endemic to the region'',
         ''Intensity of threats faced (scale 1'' @ en_dash @ ''5)'',
         ''Altitude where species occurs'', ''Level of exploitation or use'',
         ''Number of habitats the species occupies'', ''Number of uses by people'']),
      (''Scoring'', map Str [''CR=5, EN=4, VU=3, NT=2, LC=1 ('' @ times_sign @ ''3)'',
         ''Yes=2, No=1 ('' @ times_sign @ ''2)'',
         ''Score 1'' @ en_dash @ ''5 ('' @ times_sign @ ''3)'',
         ''<500=4, 501-1000=3, 1001-1500=2, >1500=1 ('' @ times_sign @ ''1)'',
         ''Not=1, Local=2, Commercial=3 ('' @ times_sign @ ''2)'',
         ''1=4, 2=3, 3=2, >3=1 ('' @ times_sign @ ''1.5)'',
         ''0=1, 1=2, 2=3, 3=4, >3=5 ('' @ times_sign @ ''1.5)''])]"

definition downloads_tab :: downloads_page where
  "downloads_tab =
     \<lparr>sample_csv = \<lparr>file_name = ''sample_species_data.csv'', sheet = sample_frame\<rparr>,
      criteria_guide = \<lparr>file_name = ''criteria_species_priority.xlsx'', sheet = criteria_frame\<rparr>\<rparr>"

section \<open>A run of the script\<close>

text \<open>
  The tabs in the order the script fills them; the first exception stops the run. A tab
  with nothing to show (no upload, button not pressed) renders no content.
\<close>

definition app_run :: "frame option \<Rightarrow> species_record \<Rightarrow> bool \<Rightarrow> app_run_result" where
  "app_run upload form run =
     (case bulk_tab upload of
        Inl e \<Rightarrow> \<lparr>rendered = [], raised = Some e\<rparr>
      | Inr b \<Rightarrow>
          (let out1 = (case b of None \<Rightarrow> [] | Some p \<Rightarrow> [Bulk p]) in
           case single_tab form run of
             Inl e \<Rightarrow> \<lparr>rendered = out1, raised = Some e\<rparr>
           | Inr s \<Rightarrow>
               (let out2 = out1 @ (case s of None \<Rightarrow> [] | Some p \<Rightarrow> [Single p]) in
                \<lparr>rendered = out2 @ [Downloads downloads_tab], raised = None\<rparr>)))"

section \<open>Helper lemmas\<close>

lemma single_tab_True:
  "single_tab r True =
     Inr (Some \<lparr>single_table = [(''Species_Name'', [Str (species_name r)]),
                              (''Priority'', [Str (priority_name (priority (score_row r)))])],
                single_report = \<lparr>file_name = ''single_species_report.xlsx'',
                                 sheet = scored_frame [score_row r]\<rparr>\<rparr>)"
  unfolding single_tab_def single_frame_def score_species_records_frame
  by (simp add: score_records_def select_cols_Cons select_cols_Nil scored_frame_def score_cols_def records_frame_def
      get_col_Cons get_col_append)

lemma bulk_tab_records:
  "bulk_tab (Some (records_frame rs)) =
     Inr (Some \<lparr>bulk_table = [(''Species_Name'', map (\<lambda>r. Str (species_name r)) rs),
               (''Priority'', map (\<lambda>r. Str (priority_name (priority (score_row r)))) rs)],
                bulk_report = \<lparr>file_name = ''species_prioritization_report.xlsx'',
                               sheet = scored_frame (score_records rs)\<rparr>\<rparr>)"
  unfolding bulk_tab_def
  by (simp add: score_species_records_frame)
    (simp add: score_records_def select_cols_Cons select_cols_Nil scored_frame_def score_cols_def
      records_frame_def get_col_Cons get_col_append comp_def)

lemma score_species_no_name:
  "score_species (tl (records_frame rs)) = Inr (tl (scored_frame (score_records rs)))"
  unfolding score_species_def Let_def
  by (simp add: score_frame_simps scored_frame_def score_cols_def score_records_def
      total_score_row iucn_score_of_def endemism_score_of_def threat_score_of_def
      altitude_score_of_def exploitation_score_of_def habitat_score_of_def use_score_of_def)

section \<open>Properties of a run\<close>

text \<open>
  C11. Without an upload the script never raises: a run renders the single-entry result
  when the button is pressed (one row holding the name typed and the label of
  \<^const>\<open>score_row\<close> for the widget values, and the report with the nine score columns)
  and always renders the Downloads tab.
\<close>

theorem app_run_without_upload:
  "app_run None form run =
     \<lparr>rendered = (if run then [Single \<lparr>single_table = [(''Species_Name'', [Str (species_name form)]),
                              (''Priority'', [Str (priority_name (priority (score_row form)))])],
                single_report = \<lparr>file_name = ''single_species_report.xlsx'',
                                 sheet = scored_frame [score_row form]\<rparr>\<rparr>] else [])
                 @ [Downloads downloads_tab],
      raised = None\<rparr>"
  by (simp add: app_run_def bulk_tab_def single_tab_True) (simp add: single_tab_def)

text \<open>
  C12. Every combination the widgets can return is scored inside the dictionaries: no
  categorical sub-score falls back to 0, and the total lies in \<open>[14, 57.5]\<close>, so the fallback
  paths of the scoring are reached only through the CSV upload.
\<close>

theorem form_inputs_in_range:
  assumes "form_valid r"
  shows "iucn_score (score_row r) \<noteq> 0 \<and> endemism_score (score_row r) \<noteq> 0 \<and>
         altitude_score (score_row r) \<noteq> 0 \<and> exploitation_score (score_row r) \<noteq> 0 \<and>
         14 \<le> total_score (score_row r) \<and> total_score (score_row r) \<le> 115 / 2"
proof -
  from assms have t: "1 \<le> threat_level r" "threat_level r \<le> 5" by (simp_all add: form_valid_def)
  from assms have i: "3 \<le> iucn_score_of (iucn_status r)"
    by (auto simp: form_valid_def iucn_options_def score_eval)
  from assms have e: "2 \<le> endemism_score_of (endemism r)"
    by (auto simp: form_valid_def endemism_options_def score_eval)
  from assms have a: "1 \<le> altitude_score_of (altitudinal_range r)"
    by (auto simp: form_valid_def altitude_options_def score_eval)
  from assms have x: "2 \<le> exploitation_score_of (exploitation r)"
    by (auto simp: form_valid_def exploitation_options_def score_eval)
  have "total_score (score_row r) \<le> 115 / 2"
    using dict_score_intervals [of "iucn_status r"] dict_score_intervals [of "endemism r"]
      dict_score_intervals [of "altitudinal_range r"] dict_score_intervals [of "exploitation r"]
      count_score_intervals [of "habitat_specificity r"] count_score_intervals [of "use_value r"] t
    by (simp add: total_score_row threat_score_of_def)
  moreover have "14 \<le> total_score (score_row r)"
    using count_score_intervals [of "habitat_specificity r"] count_score_intervals [of "use_value r"]
      i e a x t by (simp add: total_score_row threat_score_of_def)
  ultimately show ?thesis using i e a x by simp
qed

theorem form_inputs_in_range_witness:
  "iucn_score (score_row form_default) \<noteq> 0 \<and> endemism_score (score_row form_default) \<noteq> 0 \<and>
   altitude_score (score_row form_default) \<noteq> 0 \<and> exploitation_score (score_row form_default) \<noteq> 0 \<and>
   14 \<le> total_score (score_row form_default) \<and> total_score (score_row form_default) \<le> 115 / 2"
  by (rule form_inputs_in_range) (simp add: form_valid_def form_default_def iucn_options_def
      endemism_options_def altitude_options_def exploitation_options_def)

text \<open>
  C13. An upload whose name column is not called \<open>Species_Name\<close> (all seven scored columns
  present) is scored, but selecting the displayed columns raises \<open>KeyError\<close>: the run
  stops in the first tab and renders nothing, not even the single-entry result or the
  Downloads tab, whatever the form holds.
\<close>

theorem app_run_missing_name:
  "app_run (Some (tl (records_frame rs))) form run =
     \<lparr>rendered = [], raised = Some (KeyError ''Species_Name'')\<rparr>"
  by (simp add: app_run_def bulk_tab_def score_species_no_name)
    (simp add: select_cols_Cons scored_frame_def score_cols_def records_frame_def get_col_def)

end
