(* ===== verification/Session.thy ===== *)
theory Session
  imports App
begin

text \<open>
  The script as the user meets it: a Streamlit session. Every interaction with a widget
  reruns the whole script (\<^const>\<open>app_run\<close>) with the widgets' current values. The file
  uploader (line 88) keeps its file until it is cleared or replaced; the select boxes,
  slider and number inputs (lines 115--138) keep their values, which are always among
  their options and within their ranges; \<open>st.button\<close> (line 140) is \<open>True\<close> only in the
  rerun its click causes. A session is the uploaded frame, the widget values and the page
  the last rerun rendered; \<open>session_step\<close> is one interaction, an inductive relation
  because the user chooses which interaction comes next, and \<open>reachable\<close> is its
  reflexive transitive closure from the first run of a fresh session.
\<close>

section \<open>Session state\<close>

record session =
  uploaded :: "frame option"
  widgets :: species_record
  page :: app_run_result

text \<open>The session after a rerun of the script with the given inputs.\<close>

definition rerun :: "frame option \<Rightarrow> species_record \<Rightarrow> bool \<Rightarrow> session" where
  "rerun u r b = \<lparr>uploaded = u, widgets = r, page = app_run u r b\<rparr>"

text \<open>The first run: no file, the widgets' initial values, the button not pressed.\<close>

definition session_init :: session where
  "session_init = rerun None form_default False"

text \<open>
  One interaction: uploading a file (any parsed frame), clearing it, changing widgets
  (to values the widgets can hold), or pressing the button. Changing several widgets in
  one step reaches no state that one-at-a-time changes would not.
\<close>

inductive session_step :: "session \<Rightarrow> session \<Rightarrow> bool" where
  upload: "session_step s (rerun (Some df) (widgets s) False)"
| clear: "session_step s (rerun None (widgets s) False)"
| edit: "form_valid r \<Longrightarrow> session_step s (rerun (uploaded s) r False)"
| press: "session_step s (rerun (uploaded s) (widgets s) True)"

definition reachable :: "session \<Rightarrow> bool" where
  "reachable s \<longleftrightarrow> session_step\<^sup>*\<^sup>* session_init s"

text \<open>The invariant: the widgets hold values they can hold and the page is what a rerun
  with the session's file and widgets renders.\<close>

definition session_inv :: "session \<Rightarrow> bool" where
  "session_inv s \<longleftrightarrow> form_valid (widgets s) \<and> (\<exists>b. s = rerun (uploaded s) (widgets s) b)"

section \<open>Properties of sessions\<close>

lemma rerun_sel [simp]:
  "uploaded (rerun u r b) = u" "widgets (rerun u r b) = r" "page (rerun u r b) = app_run u r b"
  by (simp_all add: rerun_def)

lemma form_default_valid: "form_valid form_default"
  by (simp add: form_valid_def form_default_def iucn_options_def endemism_options_def
      altitude_options_def exploitation_options_def)

text \<open>
  The invariant holds in every reachable state, by rule induction over the interactions.
\<close>

lemma reachable_session_inv: "reachable s \<Longrightarrow> session_inv s"
  unfolding reachable_def
proof (induction rule: rtranclp_induct)
  case base
  show ?case by (auto simp: session_inv_def session_init_def form_default_valid)
next
  case (step s s')
  from step.hyps(2) step.IH show ?case
    by (induction rule: session_step.induct) (auto simp: session_inv_def)
qed

lemma single_tab_Inr: "\<exists>p. single_tab r b = Inr p"
proof (cases b)
  case True
  then show ?thesis by (simp add: single_tab_True)
next
  case False
  then show ?thesis by (simp add: single_tab_def)
qed

lemma app_run_raised:
  "raised (app_run u r b) = (case bulk_tab u of Inl e \<Rightarrow> Some e | Inr _ \<Rightarrow> None)"
  using single_tab_Inr [of r b]
  by (auto simp: app_run_def Let_def split: sum.split option.split)

lemma reachable_sample_pressed:
  "reachable (rerun (Some sample_frame) form_default True)"
proof -
  have "session_step session_init (rerun (Some sample_frame) form_default False)"
    using session_step.upload [of session_init sample_frame] by (simp add: session_init_def)
  moreover have "session_step (rerun (Some sample_frame) form_default False)
      (rerun (Some sample_frame) form_default True)"
    using session_step.press [of "rerun (Some sample_frame) form_default False"] by simp
  ultimately show ?thesis
    unfolding reachable_def by (meson rtranclp.rtrancl_refl rtranclp.rtrancl_into_rtrancl)
qed

lemma reachable_missing_name:
  "reachable (rerun (Some (tl (records_frame sample_records))) form_default True)"
proof -
  have "session_step session_init (rerun (Some (tl (records_frame sample_records))) form_default False)"
    using session_step.upload [of session_init] by (simp add: session_init_def)
  moreover have "session_step (rerun (Some (tl (records_frame sample_records))) form_default False)
      (rerun (Some (tl (records_frame sample_records))) form_default True)"
    using session_step.press [of "rerun (Some (tl (records_frame sample_records))) form_default False"]
    by simp
  ultimately show ?thesis
    unfolding reachable_def by (meson rtranclp.rtrancl_refl rtranclp.rtrancl_into_rtrancl)
qed

text \<open>
  C16. The only exceptions a session ever shows come from the uploaded file: in every
  reachable state the exception on the page is exactly the one the bulk tab raises for
  the current file, and there is none when the file scores (or there is no file), whatever
  the widgets and the button.
\<close>

theorem session_errors_from_upload:
  assumes "reachable s"
  shows "raised (page s) = (case bulk_tab (uploaded s) of Inl e \<Rightarrow> Some e | Inr _ \<Rightarrow> None)"
proof -
  from assms have "session_inv s" by (rule reachable_session_inv)
  then obtain b where "s = rerun (uploaded s) (widgets s) b" by (auto simp: session_inv_def)
  then have "page s = app_run (uploaded s) (widgets s) b" by (metis rerun_sel(3))
  then show ?thesis by (simp add: app_run_raised)
qed

theorem session_errors_from_upload_witness:
  "raised (page (rerun (Some sample_frame) form_default True)) =
     (case bulk_tab (Some sample_frame) of Inl e \<Rightarrow> Some e | Inr _ \<Rightarrow> None)"
  using session_errors_from_upload [OF reachable_sample_pressed] by simp

text \<open>
  C17. A file the bulk tab fails on blanks the page for as long as it stays uploaded: in
  every reachable state holding it, the page shows no tab at all, so neither pressing
  the button nor changing the form shows the single-species result or the downloads
  until the file is cleared or replaced.
\<close>

theorem failing_upload_blanks_page:
  assumes "reachable s" "bulk_tab (uploaded s) = Inl e"
  shows "page s = \<lparr>rendered = [], raised = Some e\<rparr>"
proof -
  from assms(1) have "session_inv s" by (rule reachable_session_inv)
  then obtain b where "s = rerun (uploaded s) (widgets s) b" by (auto simp: session_inv_def)
  then have "page s = app_run (uploaded s) (widgets s) b" by (metis rerun_sel(3))
  with assms(2) show ?thesis by (simp add: app_run_def)
qed

theorem failing_upload_blanks_page_witness:
  "page (rerun (Some (tl (records_frame sample_records))) form_default True) =
     \<lparr>rendered = [], raised = Some (KeyError ''Species_Name'')\<rparr>"
proof -
  have "bulk_tab (Some (tl (records_frame sample_records))) = Inl (KeyError ''Species_Name'')"
    unfolding bulk_tab_def
    by (simp add: score_species_no_name)
      (simp add: select_cols_Cons scored_frame_def score_cols_def records_frame_def get_col_def)
  then show ?thesis
    using failing_upload_blanks_page [OF reachable_missing_name] by simp
qed

inductive_cases session_stepE: "session_step s s'"

lemma app_run_no_press_no_single:
  "Single p \<notin> set (rendered (app_run u r False))"
  by (auto simp: app_run_def single_tab_def Let_def split: sum.split option.split)

text \<open>
  C18. The single-species result is shown only in the rerun the button's click causes: if
  an interaction leads to a page showing it, that interaction was the press, and it
  changed neither the uploaded file nor the widget values. Every other interaction (a
  new file, a cleared file, a changed widget) hides the result again.
\<close>

theorem single_result_only_on_press:
  assumes "session_step s s'" "Single p \<in> set (rendered (page s'))"
  shows "uploaded s' = uploaded s \<and> widgets s' = widgets s \<and> s' = rerun (uploaded s) (widgets s) True"
  using assms by (auto elim!: session_stepE simp: app_run_no_press_no_single)

theorem single_result_only_on_press_witness:
  "uploaded (rerun None form_default True) = uploaded (rerun None form_default False) \<and>
   widgets (rerun None form_default True) = widgets (rerun None form_default False) \<and>
   rerun None form_default True =
     rerun (uploaded (rerun None form_default False)) (widgets (rerun None form_default False)) True"
proof -
  have step: "session_step (rerun None form_default False) (rerun None form_default True)"
    using session_step.press [of "rerun None form_default False"] by simp
  obtain p where "single_tab form_default True = Inr (Some p)"
    by (simp add: single_tab_True)
  then have "Single p \<in> set (rendered (page (rerun None form_default True)))"
    by (simp add: app_run_def bulk_tab_def)
  from single_result_only_on_press [OF step this] show ?thesis .
qed

end
