(* ===== verification/Threat_Int64.thy ===== *)
theory Threat_Int64
  imports Scoring "HOL-Library.Word"
begin

text \<open>
  The threat score at the width pandas computes it. A \<open>Threat_Level\<close> column of whole
  numbers is read by \<open>read_csv\<close> (and built by the single-entry DataFrame) as int64, and
  \<open>df["Threat_Level"] * 3\<close> (line 32) is an int64 product, which numpy wraps around
  silently; the other sub-scores are small (their codes come from dictionaries and
  lambdas), and the total (lines 55--63) is float64. The model reads the sum exactly; the
  rounding of a float64 sum beyond \<open>2^53\<close> is monotone and keeps the sign, so it moves
  no total across a threshold (39, 32, 24) and is not modelled. The rest of the
  development computes in \<^typ>\<open>real\<close>; this theory shows where that agrees with the
  int64 product and what the code does beyond.
\<close>

type_synonym int64 = "64 word"

text \<open>\<open>df["Threat_Level"] * 3\<close> on one int64 value.\<close>

definition threat_score_i64 :: "int64 \<Rightarrow> int64" where
  "threat_score_i64 t = t * 3"

text \<open>\<open>Total_Score\<close> of one row whose threat level is the int64 \<open>t\<close>, the wrapped product
  converted to a number. The sum is read exactly; the program's float64 sum rounds it once
  \<open>|t|\<close> passes about \<open>1.5 * 10^15\<close>, which keeps its sign and order.\<close>

definition total_score_i64 :: "species_record \<Rightarrow> int64 \<Rightarrow> real" where
  "total_score_i64 r t =
     iucn_score_of (iucn_status r) + endemism_score_of (endemism r)
     + of_int (sint (threat_score_i64 t)) + altitude_score_of (altitudinal_range r)
     + exploitation_score_of (exploitation r) + habitat_score_of (habitat_specificity r)
     + use_score_of (use_value r)"

section \<open>Exactness and wrap-around\<close>

lemma sint_threat_score_i64:
  "sint (threat_score_i64 t) = signed_take_bit 63 (sint t * 3)"
  unfolding threat_score_i64_def using sint_word_ariths(3) [of t 3] by simp

lemma threat_score_i64_exact:
  assumes "\<bar>sint t\<bar> \<le> 3074457345618258602"
  shows "sint (threat_score_i64 t) = 3 * sint t"
  using assms unfolding sint_threat_score_i64
  by (subst signed_take_bit_int_eq_self) auto

text \<open>On the range \<^const>\<open>threat_exact\<close> the int64 product is the exact threat score.\<close>

lemma threat_score_i64_threat_exact:
  assumes "threat_exact r" "threat_level r = sint t"
  shows "of_int (sint (threat_score_i64 t)) = threat_score_of (threat_level r)"
proof -
  from assms have "\<bar>sint t\<bar> \<le> 3074457345618258602" by (simp add: threat_exact_def)
  then have "sint (threat_score_i64 t) = 3 * sint t" by (rule threat_score_i64_exact)
  with assms(2) show ?thesis by (simp add: threat_score_of_def)
qed

lemma threat_score_i64_wraps:
  "sint (threat_score_i64 3074457345618258603) = -9223372036854775807"
  by (simp add: sint_threat_score_i64)

lemma other_scores_bounds:
  "0 \<le> iucn_score_of a + endemism_score_of b + altitude_score_of c + exploitation_score_of d
     + habitat_score_of h + use_score_of u"
  "iucn_score_of a + endemism_score_of b + altitude_score_of c + exploitation_score_of d
     + habitat_score_of h + use_score_of u \<le> 85 / 2"
  using dict_score_intervals [of a] dict_score_intervals [of b] dict_score_intervals [of c]
    dict_score_intervals [of d] count_score_intervals [of h] count_score_intervals [of u]
  by linarith+

text \<open>
  C19. The int64 product wraps just past the largest threat level whose triple fits,
  \<open>3074457345618258602\<close>: with threat level \<open>3074457345618258603\<close> the threat score is
  \<open>-9223372036854775807\<close>, the total is negative and the species is labelled \<open>Low\<close>,
  whatever its other columns, where the exact computation gives \<open>Critical\<close>. The
  program's float64 sum rounds this total but keeps its sign, so its label is \<open>Low\<close> too.
\<close>

theorem threat_overflow_low:
  "total_score_i64 r 3074457345618258603 < 0 \<and>
   priority_of (total_score_i64 r 3074457345618258603) = Low \<and>
   priority (score_row (r\<lparr>threat_level := 3074457345618258603\<rparr>)) = Critical"
proof -
  have "total_score_i64 r 3074457345618258603 < 0"
    using other_scores_bounds(2) [of "iucn_status r" "endemism r" "altitudinal_range r"
        "exploitation r" "habitat_specificity r" "use_value r"]
    by (simp add: total_score_i64_def threat_score_i64_wraps)
  moreover have "39 \<le> total_score (score_row (r\<lparr>threat_level := 3074457345618258603\<rparr>))"
    using other_scores_bounds(1) [of "iucn_status r" "endemism r" "altitudinal_range r"
        "exploitation r" "habitat_specificity r" "use_value r"]
    by (simp add: total_score_row threat_score_of_def)
  ultimately show ?thesis by (simp add: priority_of_def)
qed
end
