(* ===== verification/Spec2Isabelle.thy ===== *)
theory Spec2Isabelle
  imports Session Threat_Int64
begin

text \<open>
  Verification development of the species prioritisation tool, a single Streamlit script
  (src/species_prioritization_app.py). The script has two parts: the scoring function
  \<open>score_species\<close> (lines 15--72), a pandas pipeline that maps seven input columns to
  seven sub-scores, their total and a priority label; and the Streamlit UI (lines 77--225),
  three tabs filled in order on every run: bulk scoring of an uploaded CSV (85--104), a
  form for a single species (109--167), and downloads of a sample CSV and of a criteria
  guide (172--225). Both scoring tabs call \<open>score_species\<close> and show the columns
  \<open>Species_Name\<close> and \<open>Priority\<close> of its result.

  \<^bold>\<open>Theories.\<close>
  \<^item> \<open>Prelude\<close>: Python's exceptions as values (\<^typ>\<open>py_error\<close>, a result is
    \<open>py_error + 'a\<close>, \<^const>\<open>bind_res\<close> sequences, \<^const>\<open>seq_res\<close> collects the
    element-wise results of a vectorised operation, first error first), the predicate
    \<^const>\<open>only_type_error\<close>, and half-integers (\<^const>\<open>half_int\<close>), the numbers all
    scores are.
  \<^item> \<open>Priority\<close>: the label cascade of lines 65--70 (\<^const>\<open>priority_of\<close>) on a datatype
    of labels ordered by rank (a \<open>linorder\<close> instance), and the spec's bands.
  \<^item> \<open>Scoring\<close>: the specification of one row. A \<open>species_record\<close> is a row of the input
    (the eight columns of the sample CSV, numeric columns as integers); the dictionaries,
    the habitat and use lambdas and the weights of lines 19--63 are one definition each,
    and \<^const>\<open>score_row\<close> computes the extended record \<open>scored_species\<close> (sub-scores,
    total, label). This is the contract of \<open>score_species\<close> row by row.
  \<^item> \<open>Frame\<close>: the pandas operations the function uses, on a column-major frame (an
    association list of named columns of \<^typ>\<open>cell\<close>s: a number, a string, or NaN):
    column read (\<open>KeyError\<close> when absent), column assignment (replace in place or
    append), \<open>Series.map\<close> with a dict, \<open>fillna\<close>, \<open>*\<close> by an int (string repetition on
    strings) and by a float (\<open>TypeError\<close> on strings), \<open>+\<close> (concatenation of two
    strings, \<open>TypeError\<close> for a string with a number, NaN absorbing), \<open>==\<close>, \<open>>=\<close>
    and \<open>apply\<close>; and the lemmas that fuse a chain of column additions into one
    row-wise computation when every error it can raise is a \<open>TypeError\<close>.
  \<^item> \<open>Score_Frame\<close>: \<^const>\<open>score_species\<close> itself, statement by statement in the order of
    the source, on arbitrary frames. Its lemmas refine it to \<^const>\<open>score_records\<close> on
    frames built from records (\<^const>\<open>records_frame\<close>, extra columns kept), give the round
    trip of its output, show that on every well-formed frame holding the input columns it
    raises nothing unless \<open>Threat_Level\<close> holds a string and keeps the frame well formed
    (invariant \<^const>\<open>wf_frame\<close>: distinct names, equal lengths), and characterise its
    errors: which \<open>KeyError\<close> a missing column raises, the \<open>TypeError\<close> of a string
    threat level, and the NaN threat level that yields a NaN total labelled \<open>Low\<close>.
  \<^item> \<open>App\<close>: the three tabs as functions of the run's inputs (\<^const>\<open>bulk_tab\<close>,
    \<^const>\<open>single_tab\<close>, \<^const>\<open>downloads_tab\<close>), the widget ranges (\<^const>\<open>form_valid\<close>),
    and a run of the script (\<^const>\<open>app_run\<close>): the tab contents rendered in order and
    the exception that stopped the run.
  \<^item> \<open>Session\<close>: the script under Streamlit's rerun model. A session is the uploaded frame,
    the widget values and the page; uploading, clearing, editing the form and pressing
    the button are the rules of the inductive relation \<^const>\<open>session_step\<close>, each a rerun
    of \<^const>\<open>app_run\<close>. Lemmas: the invariant of reachable states (by rule induction),
    and from it that every exception shown comes from the upload, that a failing upload
    blanks the page for as long as it stays, and that the single-species result appears
    only in the rerun the button's click causes.
  \<^item> \<open>Threat_Int64\<close>: \<open>Threat_Level * 3\<close> (line 32) as an int64 product (\<open>64 word\<close>,
    read by \<open>sint\<close>): equal to the exact threat score on the range
    \<^const>\<open>threat_exact\<close>, and wrapping to a negative score (label \<open>Low\<close>) past
    3074457345618258602, which makes the program non-monotone in the threat level.
  \<^item> This theory: the property spanning the two scoring tabs: the single entry agrees
    with the row of the bulk result.

  \<^bold>\<open>Numbers.\<close> pandas computes the sub-scores in int64 and float64; the model uses
  \<^typ>\<open>real\<close>. Every sub-score and every total is a multiple of 1/2 (lemma
  \<open>total_score_half_int\<close>) and the thresholds 39, 32, 24 are integers, so the model is
  the program's computation exactly as long as the threat level, the one unbounded input,
  stays within \<^const>\<open>threat_exact\<close> (\<open>|t| \<le> 10^15\<close>): there the int64 product
  \<open>Threat_Level * 3\<close> does not wrap (lemma \<open>threat_score_i64_threat_exact\<close>) and every
  partial sum is a float64 value. The properties whose truth depends on the threat level's
  size (monotonicity C3, the bounds C6) carry that hypothesis; the refinement and error
  properties relate two computations that share line 32's arithmetic and need none.
  Beyond the range, \<open>Threat_Int64\<close> models the product at its width (C19).

  \<^bold>\<open>Termination and fuel.\<close> The program has no loop of its own: its iteration is the
  element-wise work of pandas over a column, modelled by \<^const>\<open>map\<close>, by
  \<^const>\<open>seq_res\<close> and by the structurally recursive \<^const>\<open>add_columns\<close>, so every
  definition is total and no fuel is needed. A Streamlit session never ends by itself;
  it is modelled by its reachable states, not by a run to completion.

  \<^bold>\<open>Not modelled.\<close> CSV parsing (\<open>read_csv\<close>: the model starts from the parsed frame,
  with numbers, strings and NaN as cells; booleans and dates are not cells, and which
  columns come out as int64 is the parser's choice), Excel and CSV writing (the model
  records which frame is written to which file name), page layout, titles and widget
  labels, and Streamlit's display of an exception (the model records that the run
  stopped and with which exception). float64 rounding beyond \<open>2^53\<close> is not modelled:
  it is monotone, keeps the sign, and moves no total across a threshold.
\<close>

section \<open>The two scoring tabs\<close>

text \<open>
  C14. The single-species form and the bulk upload are the same engine: for every list of
  records and every row \<open>i\<close> of it, the single-entry tab on record \<open>i\<close> shows exactly
  row \<open>i\<close> of the table the bulk tab shows for the whole list (name and priority).
\<close>

theorem single_matches_bulk:
  assumes "i < length rs"
  shows "\<exists>b s. bulk_tab (Some (records_frame rs)) = Inr (Some b) \<and>
           single_tab (rs ! i) True = Inr (Some s) \<and>
           map (\<lambda>(c, col). (c, [col ! i])) (bulk_table b) = single_table s"
  using assms by (simp add: bulk_tab_records single_tab_True)

theorem single_matches_bulk_witness:
  "\<exists>b s. bulk_tab (Some (records_frame sample_records)) = Inr (Some b) \<and>
     single_tab (sample_records ! 1) True = Inr (Some s) \<and>
     map (\<lambda>(c, col). (c, [col ! 1])) (bulk_table b) = single_table s"
  by (rule single_matches_bulk) (simp add: sample_records_def)

end
